theory Spec2Isabelle
  imports Main "HOL-Library.Sublist"
begin

section \<open>Strings as the script uses them\<close>

text \<open>
  A Python \<open>str\<close> is modelled as a \<open>string\<close>; a character stands for its code point
  (the model covers the code points below 256). \<open>a in b\<close> on strings is
  \<^term>\<open>sublist a b\<close>.
\<close>

type_synonym path = string

abbreviation NL :: char where
  "NL \<equiv> CHR 0x0A"

text \<open>\<open>str.isspace\<close> on one character.\<close>

definition isspace :: "char \<Rightarrow> bool" where
  "isspace c = (of_char c \<in> set [9, 10, 11, 12, 13, 28, 29, 30, 31, 32, 133, 160 :: nat])"

text \<open>\<open>str.strip()\<close>: leading and trailing whitespace removed.\<close>

definition strip :: "string \<Rightarrow> string" where
  "strip s = rev (dropWhile isspace (rev (dropWhile isspace s)))"

text \<open>\<open>str.lower()\<close>, character by character.\<close>

definition lower_char :: "char \<Rightarrow> char" where
  "lower_char c =
     (let n = (of_char c :: nat)
      in if (65 \<le> n \<and> n \<le> 90) \<or> (192 \<le> n \<and> n \<le> 222 \<and> n \<noteq> 215)
         then char_of (n + 32) else c)"

definition lower :: "string \<Rightarrow> string" where
  "lower s = map lower_char s"

text \<open>A text made of lines, each ended by a newline.\<close>

definition unlines :: "string list \<Rightarrow> string" where
  "unlines ls = concat (map (\<lambda>l. l @ [NL]) ls)"

text \<open>
  A text that passes unchanged through \<open>echo '...'\<close> under \<open>/bin/sh\<close> and through the
  reading of a command's output as text: printable ASCII characters, tabs and newlines,
  with no single quote (it would end the quotation) and no backslash (\<open>echo\<close> would
  interpret it), short enough for one argument of a command.
\<close>

definition plain_char :: "char \<Rightarrow> bool" where
  "plain_char c =
     (let n = (of_char c :: nat)
      in n = 9 \<or> n = 10 \<or> (32 \<le> n \<and> n < 127 \<and> n \<noteq> 39 \<and> n \<noteq> 92))"

definition plain_text :: "string \<Rightarrow> bool" where
  "plain_text s = (length s \<le> 65000 \<and> list_all plain_char s)"

section \<open>The host the script runs on\<close>

text \<open>
  \<open>subprocess.run\<close> either returns a \<open>CompletedProcess\<close> or, with \<open>check=True\<close> and
  a non-zero exit status, raises \<open>CalledProcessError\<close>; both objects carry the exit
  status and the captured output.
\<close>

datatype proc =
    CompletedProcess (returncode: int) (stdout: string)
  | CalledProcessError (returncode: int) (stdout: string)

text \<open>The shell commands the script issues, one constructor per command text.\<close>

datatype command =
    Cp path path
  | DpkgPrintArchitecture
  | Wget path string
  | AptCacheShow string
  | DpkgInstall path
  | AptFixBroken
  | AptUpdate
  | DpkgListGrep string
  | AptInstall string
  | InstallZeroTier
  | IsActiveNetworkManager
  | StopNetworkManager
  | DisableNetworkManager
  | IpLinkShow
  | IpAddrShow string
  | ZeroTierJoin string
  | IpLinkShowZt
  | ZeroTierInfo
  | ZeroTierListNetworks
  | ZeroTierSet string
  | CrontabList
  | CrontabInstall string

fun command_line :: "command \<Rightarrow> string" where
  "command_line (Cp filepath backup_path) = ''cp '' @ filepath @ '' '' @ backup_path"
| "command_line DpkgPrintArchitecture = ''dpkg --print-architecture''"
| "command_line (Wget output_path package_url) =
     ''wget -q --show-progress -O '' @ output_path @ '' '' @ package_url"
| "command_line (AptCacheShow package_name) =
     ''apt-cache show '' @ package_name @ '' | grep Filename:''"
| "command_line (DpkgInstall deb_file) = ''dpkg -i '' @ deb_file"
| "command_line AptFixBroken = ''apt-get install -f -y''"
| "command_line AptUpdate = ''apt-get update''"
| "command_line (DpkgListGrep package) =
     ''dpkg -l | grep '' @ [CHR 0x27] @ ''^ii.*'' @ package @ [CHR 0x27]"
| "command_line (AptInstall package) = ''apt-get install -y '' @ package"
| "command_line InstallZeroTier = ''curl -s https://install.zerotier.com/ | bash''"
| "command_line IsActiveNetworkManager = ''systemctl is-active NetworkManager''"
| "command_line StopNetworkManager = ''systemctl stop NetworkManager''"
| "command_line DisableNetworkManager = ''systemctl disable NetworkManager''"
| "command_line IpLinkShow =
     ''ip link show | grep -E '' @ [CHR 0x27] @ ''^[0-9]+:'' @ [CHR 0x27] @ '' | awk ''
       @ [CHR 0x27] @ ''{print $2}'' @ [CHR 0x27] @ '' | sed '' @ [CHR 0x27] @ ''s/://''
       @ [CHR 0x27]"
| "command_line (IpAddrShow physical_interface) = ''ip addr show '' @ physical_interface"
| "command_line (ZeroTierJoin network_id) = ''zerotier-cli join '' @ network_id"
| "command_line IpLinkShowZt =
     ''ip link show | grep '' @ [CHR 0x27] @ ''zt'' @ [CHR 0x27] @ '' | awk '' @ [CHR 0x27]
       @ ''{print $2}'' @ [CHR 0x27] @ '' | sed '' @ [CHR 0x27] @ ''s/:$//'' @ [CHR 0x27]"
| "command_line ZeroTierInfo = ''zerotier-cli info''"
| "command_line ZeroTierListNetworks = ''zerotier-cli listnetworks''"
| "command_line (ZeroTierSet network_id) =
     ''zerotier-cli set '' @ network_id @ '' allowManaged=0''"
| "command_line CrontabList = ''crontab -l''"
| "command_line (CrontabInstall new_cron) =
     ''echo '' @ [CHR 0x27] @ new_cron @ [CHR 0x27] @ '' | crontab -''"

text \<open>The questions \<open>input()\<close> puts to the operator.\<close>

datatype prompt =
    AskPhysicalInterface
  | AskBridgeIp
  | AskNetmask
  | AskGateway
  | AskDns
  | AskZeroTierNetwork
  | AskProceed
  | AskDisableNetworkManager
  | AskContinueAnyway

text \<open>
  What the script does to its surroundings, in the order it does it: a command run, a
  question asked together with the answer typed (\<open>None\<close> at the end of the input), a
  file written, the summary of the packages that could not be installed.
\<close>

datatype event =
    Ran command
  | Asked prompt "string option"
  | Wrote path
  | Reported "string list"

text \<open>
  The part of the host that the script changes: the text files it opens (and the copies
  \<open>cp\<close> makes of them, and the files \<open>wget\<close> leaves behind), root's job table, the
  answers the operator has still to type, the number of commands run so far, and the
  record of what was done.
\<close>

record world =
  files :: "path \<Rightarrow> string option"
  crontab :: "string option"
  inputs :: "string list"
  ticks :: nat
  trace :: "event list"

text \<open>
  The part of the host that the script only observes. \<open>shell n c\<close> is the exit status
  and output of command \<open>c\<close> when it is the \<open>n\<close>-th command of the run; \<open>fetched n url\<close>
  is what a download of \<open>url\<close> at that moment leaves at its output path (\<open>None\<close>: no
  file); \<open>strftime n\<close> is the formatted time; \<open>can_read\<close> and \<open>can_write\<close> say whether
  \<open>open\<close> succeeds on a path; \<open>can_makedirs\<close> says whether \<open>os.makedirs\<close> succeeds
  on it; \<open>requoted\<close> is what \<open>echo '...' | crontab -\<close> installs for a text that is not
  plain, and \<open>reread\<close> what reading a job table that is not plain yields.
\<close>

record env =
  geteuid :: nat
  shell :: "nat \<Rightarrow> command \<Rightarrow> int \<times> string"
  fetched :: "nat \<Rightarrow> string \<Rightarrow> string option"
  strftime :: "nat \<Rightarrow> string"
  can_read :: "path \<Rightarrow> bool"
  can_write :: "path \<Rightarrow> bool"
  can_makedirs :: "path \<Rightarrow> bool"
  requoted :: "string \<Rightarrow> string option"
  reread :: "string \<Rightarrow> string"

datatype error = SystemExit int | EOFError | OSError

text \<open>
  A step that can end the run hands on its error; \<open>and_then\<close> runs the next step only
  after a normal return.
\<close>

definition and_then ::
  "(error + 'a) \<times> world \<Rightarrow> ('a \<Rightarrow> world \<Rightarrow> (error + 'b) \<times> world) \<Rightarrow> (error + 'b) \<times> world" where
  "and_then r f = (case r of (Inl err, w) \<Rightarrow> (Inl err, w) | (Inr a, w) \<Rightarrow> f a w)"

text \<open>\<open>input(prompt)\<close>: the next line of the operator, \<open>EOFError\<close> when there is none.\<close>

definition input :: "prompt \<Rightarrow> world \<Rightarrow> (error + string) \<times> world" where
  "input p w =
     (case inputs w of
        [] \<Rightarrow> (Inl EOFError, w\<lparr>trace := trace w @ [Asked p None]\<rparr>)
      | answer # rest \<Rightarrow>
          (Inr answer, w\<lparr>inputs := rest, trace := trace w @ [Asked p (Some answer)]\<rparr>))"

text \<open>\<open>response in ['yes', 'y']\<close> for \<open>response = input(...).strip().lower()\<close>.\<close>

definition says_yes :: "string \<Rightarrow> bool" where
  "says_yes answer = (lower (strip answer) \<in> set [''yes'', ''y''])"

section \<open>Files\<close>

definition path_exists :: "world \<Rightarrow> path \<Rightarrow> bool" where
  "path_exists w p = (files w p \<noteq> None)"

definition getsize :: "world \<Rightarrow> path \<Rightarrow> nat" where
  "getsize w p = (case files w p of None \<Rightarrow> 0 | Some body \<Rightarrow> length body)"

text \<open>
  \<open>with open(p, 'w') as f: f.write(text)\<close>. The result is \<open>False\<close> when an exception is
  raised; the write is taken as one step, done or not done.
\<close>

definition write_file :: "env \<Rightarrow> path \<Rightarrow> string \<Rightarrow> world \<Rightarrow> bool \<times> world" where
  "write_file e p text w =
     (if can_write e p
      then (True, w\<lparr>files := (files w)(p \<mapsto> text), trace := trace w @ [Wrote p]\<rparr>)
      else (False, w))"

text \<open>\<open>with open(p, 'a') as f: f.write(text)\<close>; a missing file is created.\<close>

definition append_file :: "env \<Rightarrow> path \<Rightarrow> string \<Rightarrow> world \<Rightarrow> bool \<times> world" where
  "append_file e p text w =
     (if can_write e p
      then (True, w\<lparr>files := (files w)(p \<mapsto> (case files w p of None \<Rightarrow> text | Some old \<Rightarrow> old @ text)),
                     trace := trace w @ [Wrote p]\<rparr>)
      else (False, w))"

text \<open>\<open>with open(p, 'r') as f: content = f.read()\<close>; \<open>None\<close> when an exception is raised.\<close>

definition read_file :: "env \<Rightarrow> path \<Rightarrow> world \<Rightarrow> string option" where
  "read_file e p w = (if can_read e p then files w p else None)"

section \<open>The command executor\<close>

text \<open>
  What a command reports. The job table is part of the world, so \<open>crontab -l\<close> prints it
  (and fails when root has none): a plain table is read as it is, any other as the host
  decides. Every other command reports what the host decides.
\<close>

definition outcome :: "env \<Rightarrow> world \<Rightarrow> command \<Rightarrow> int \<times> string" where
  "outcome e w c =
     (case c of
        CrontabList \<Rightarrow>
          (case crontab w of
             None \<Rightarrow> (1, '''')
           | Some table \<Rightarrow> (0, if plain_text table then table else reread e table))
      | _ \<Rightarrow> shell e (ticks w) c)"

text \<open>
  What a command changes in the world: a successful \<open>cp\<close> copies the file, \<open>wget\<close>
  leaves at its output path what the host decides, a successful \<open>echo '...' | crontab -\<close>
  installs the echoed text when that text is plain (\<open>echo\<close> ends it with a newline),
  and otherwise what the host decides. The other commands change nothing the script
  reads back.
\<close>

definition effect :: "env \<Rightarrow> command \<Rightarrow> int \<Rightarrow> world \<Rightarrow> world" where
  "effect e c status w =
     (case c of
        Cp filepath backup_path \<Rightarrow>
          (if status = 0 then w\<lparr>files := (files w)(backup_path := files w filepath)\<rparr> else w)
      | Wget output_path package_url \<Rightarrow>
          w\<lparr>files := (files w)(output_path := fetched e (ticks w) package_url)\<rparr>
      | CrontabInstall new_cron \<Rightarrow>
          (if status = 0
           then w\<lparr>crontab := (if plain_text new_cron then Some (new_cron @ [NL])
                                 else requoted e new_cron)\<rparr>
           else w)
      | _ \<Rightarrow> w)"

text \<open>
  \<open>run_command(command, check=...)\<close>. A failing command with \<open>check=True\<close> raises
  \<open>CalledProcessError\<close> inside \<open>subprocess.run\<close>; the handler returns the exception
  object.
\<close>

definition run_command :: "env \<Rightarrow> command \<Rightarrow> bool \<Rightarrow> world \<Rightarrow> proc \<times> world" where
  "run_command e command check w =
     (let (status, out) = outcome e w command;
          w' = (effect e command status w)\<lparr>ticks := Suc (ticks w),
                                              trace := trace w @ [Ran command]\<rparr>
      in if check \<and> status \<noteq> 0 then (CalledProcessError status out, w')
         else (CompletedProcess status out, w'))"

section \<open>Backups\<close>

text \<open>
  \<open>backup_file(filepath)\<close>. \<open>run_command\<close> returns in every case, so the handler of the
  \<open>try\<close> around it is never entered.
\<close>

definition backup_file :: "env \<Rightarrow> path \<Rightarrow> world \<Rightarrow> path option \<times> world" where
  "backup_file e filepath w =
     (if path_exists w filepath
      then (let timestamp = strftime e (ticks w);
                backup_path = filepath @ ''.backup.'' @ timestamp;
                (result, w') = run_command e (Cp filepath backup_path) True w
            in (Some backup_path, w'))
      else (None, w))"

section \<open>The network-interfaces file\<close>

record run_config =
  physical_interface :: string
  bridge_ip :: string
  netmask :: string
  gateway :: string
  dns :: string
  zerotier_network :: "string option"

definition interfaces_file :: path where
  "interfaces_file = ''/etc/network/interfaces''"

definition interfaces_config :: "run_config \<Rightarrow> string" where
  "interfaces_config config = unlines
     [''# /etc/network/interfaces'',
      ''# Configured by zerotier_bridge_setup.py'',
      '''',
      ''# Loopback interface'',
      ''auto lo'',
      ''iface lo inet loopback'',
      '''',
      ''# Physical interface - no IP configuration (manual mode)'',
      ''auto '' @ physical_interface config,
      ''iface '' @ physical_interface config @ '' inet manual'',
      '''',
      ''# Bridge interface'',
      ''auto br0'',
      ''iface br0 inet static'',
      ''    address '' @ bridge_ip config,
      ''    netmask '' @ netmask config,
      ''    gateway '' @ gateway config,
      ''    dns-nameservers '' @ dns config,
      ''    bridge_ports '' @ physical_interface config,
      ''    bridge_stp off'',
      ''    bridge_fd 0'',
      ''    bridge_maxwait 0'']"

definition configure_network_interfaces :: "env \<Rightarrow> run_config \<Rightarrow> world \<Rightarrow> bool \<times> world" where
  "configure_network_interfaces e config w =
     (let (backup, w1) = backup_file e interfaces_file w
      in write_file e interfaces_file (interfaces_config config) w1)"

section \<open>The DHCP-client exclusion file\<close>

definition detect_network_manager :: "env \<Rightarrow> world \<Rightarrow> bool \<times> world" where
  "detect_network_manager e w =
     (let (result, w') = run_command e IsActiveNetworkManager False w
      in (returncode result = 0, w'))"

definition handle_network_manager :: "env \<Rightarrow> world \<Rightarrow> (error + bool) \<times> world" where
  "handle_network_manager e w =
     (let (active, w1) = detect_network_manager e w
      in if active
         then and_then (input AskDisableNetworkManager w1) (\<lambda>answer w2.
                if says_yes answer
                then (let (r1, w3) = run_command e StopNetworkManager True w2;
                          (r2, w4) = run_command e DisableNetworkManager True w3
                      in (Inr True, w4))
                else (Inl (SystemExit 1), w2))
         else (Inr False, w1))"

definition dhcpcd_conf :: path where
  "dhcpcd_conf = ''/etc/dhcpcd.conf''"

definition dhcpcd_header :: string where
  "dhcpcd_header = unlines
     [''# dhcpcd configuration for ZeroTier bridge'',
      ''# Created by zerotier_bridge_setup.py'',
      '''']"

definition dhcpcd_block :: string where
  "dhcpcd_block = NL # unlines
     [''# ZeroTier Bridge Configuration'',
      ''# Prevent dhcpcd from managing bridge interfaces'',
      ''denyinterfaces eth0'',
      ''denyinterfaces zt*'']"

text \<open>The test \<open>'denyinterfaces eth0' in content and 'denyinterfaces zt' in content\<close>.\<close>

definition already_configured :: "string \<Rightarrow> bool" where
  "already_configured content =
     (sublist ''denyinterfaces eth0'' content \<and> sublist ''denyinterfaces zt'' content)"

text \<open>
  \<open>configure_dhcpcd()\<close>. The first step is the \<open>if not os.path.exists\<close> block; it
  yields \<open>False\<close> where the source returns \<open>False\<close> from inside it.
\<close>

definition configure_dhcpcd :: "env \<Rightarrow> world \<Rightarrow> (error + bool) \<times> world" where
  "configure_dhcpcd e w =
     and_then
       (if \<not> path_exists w dhcpcd_conf
        then and_then (handle_network_manager e w) (\<lambda>disabled w1.
               (let (created, w2) = write_file e dhcpcd_conf dhcpcd_header w1
                in (Inr created, w2)))
        else (Inr True, w))
       (\<lambda>present w2.
          if \<not> present then (Inr False, w2)
          else (let (backup, w3) = backup_file e dhcpcd_conf w2
                in case read_file e dhcpcd_conf w3 of
                     None \<Rightarrow> (Inr False, w3)
                   | Some content \<Rightarrow>
                       if already_configured content then (Inr True, w3)
                       else (let (appended, w4) = append_file e dhcpcd_conf dhcpcd_block w3
                             in (Inr appended, w4))))"

section \<open>The package provisioner\<close>

text \<open>\<open>os.path.basename\<close>: what follows the last slash.\<close>

definition basename :: "string \<Rightarrow> string" where
  "basename p = rev (takeWhile (\<lambda>c. c \<noteq> CHR ''/'') (rev p))"

text \<open>
  \<open>str.split()\<close>: the maximal runs of characters that are not whitespace. The first
  argument holds, reversed, the run being read.
\<close>

fun split_run :: "string \<Rightarrow> string \<Rightarrow> string list" where
  "split_run cur [] = (if cur = [] then [] else [rev cur])"
| "split_run cur (c # cs) =
     (if isspace c then (if cur = [] then split_run [] cs else rev cur # split_run [] cs)
      else split_run (c # cur) cs)"

definition split_ws :: "string \<Rightarrow> string list" where
  "split_ws s = split_run [] s"

definition get_architecture :: "env \<Rightarrow> world \<Rightarrow> string \<times> world" where
  "get_architecture e w =
     (let (result, w') = run_command e DpkgPrintArchitecture True w
      in if returncode result = 0 then (strip (stdout result), w') else (''armhf'', w'))"

definition download_package_direct :: "env \<Rightarrow> string \<Rightarrow> path \<Rightarrow> world \<Rightarrow> bool \<times> world" where
  "download_package_direct e package_url output_path w =
     (let (result, w') = run_command e (Wget output_path package_url) False w
      in if returncode result = 0 \<and> path_exists w' output_path
         then (let file_size = getsize w' output_path
               in if file_size > 1000 then (True, w') else (False, w'))
         else (False, w'))"

definition temp_dir :: path where
  "temp_dir = ''/tmp/zerotier_packages''"

definition known_packages :: "(string \<times> (string \<times> string) list) list" where
  "known_packages =
     [(''bridge-utils'',
        [(''armhf'', ''http://ftp.debian.org/debian/pool/main/b/bridge-utils/bridge-utils_1.7.1-1_armhf.deb''),
         (''arm64'', ''http://ftp.debian.org/debian/pool/main/b/bridge-utils/bridge-utils_1.7.1-1_arm64.deb'')]),
      (''ifupdown'',
        [(''armhf'', ''http://ftp.debian.org/debian/pool/main/i/ifupdown/ifupdown_0.8.41_armhf.deb''),
         (''arm64'', ''http://ftp.debian.org/debian/pool/main/i/ifupdown/ifupdown_0.8.41_arm64.deb'')])]"

definition mirrors :: "string list" where
  "mirrors =
     [''http://ftp.debian.org/debian/'',
      ''http://deb.debian.org/debian/'',
      ''http://ftp.ch.debian.org/debian/'',
      ''http://ftp.de.debian.org/debian/'']"

definition snapshot_urls :: "(string \<times> (string \<times> string) list) list" where
  "snapshot_urls =
     [(''ifupdown'',
        [(''armhf'', ''http://snapshot.debian.org/archive/debian/20231201T084046Z/pool/main/i/ifupdown/ifupdown_0.8.41_armhf.deb''),
         (''arm64'', ''http://snapshot.debian.org/archive/debian/20231201T084046Z/pool/main/i/ifupdown/ifupdown_0.8.41_arm64.deb'')])]"

text \<open>\<open>d[package_name][arch]\<close> when \<open>package_name in d and arch in d[package_name]\<close>.\<close>

definition lookup_url ::
  "(string \<times> (string \<times> string) list) list \<Rightarrow> string \<Rightarrow> string \<Rightarrow> string option" where
  "lookup_url d package_name arch =
     (case map_of d package_name of None \<Rightarrow> None | Some by_arch \<Rightarrow> map_of by_arch arch)"

text \<open>The \<open>for mirror in mirrors\<close> loop of \<open>download_deb_package_improved\<close>.\<close>

fun try_mirrors :: "env \<Rightarrow> string \<Rightarrow> string list \<Rightarrow> world \<Rightarrow> path option \<times> world" where
  "try_mirrors e filename [] w = (None, w)"
| "try_mirrors e filename (mirror # rest) w =
     (let package_url = mirror @ filename;
          output_file = temp_dir @ ''/'' @ basename filename;
          (ok, w') = download_package_direct e package_url output_file w
      in if ok then (Some output_file, w') else try_mirrors e filename rest w')"

text \<open>\<open>os.makedirs(p, exist_ok=True)\<close>: it raises where the directory cannot be made.\<close>

definition makedirs :: "env \<Rightarrow> path \<Rightarrow> world \<Rightarrow> (error + unit) \<times> world" where
  "makedirs e p w = (if can_makedirs e p then (Inr (), w) else (Inl OSError, w))"

text \<open>
  \<open>download_deb_package_improved(package_name, arch)\<close>. The exception of \<open>os.makedirs\<close>
  is not handled here.
\<close>

definition download_deb_package_improved ::
  "env \<Rightarrow> string \<Rightarrow> string \<Rightarrow> world \<Rightarrow> (error + path option) \<times> world" where
  "download_deb_package_improved e package_name arch w0 =
     and_then (makedirs e temp_dir w0) (\<lambda>made w.
       let (found, w1) =
             (case lookup_url known_packages package_name arch of
                Some known_url \<Rightarrow>
                  (let output_file = temp_dir @ ''/'' @ basename known_url;
                       (ok, w') = download_package_direct e known_url output_file w
                   in (if ok then Some output_file else None, w'))
              | None \<Rightarrow> (None, w))
       in case found of
            Some output_file \<Rightarrow> (Inr (Some output_file), w1)
          | None \<Rightarrow>
              (let (result, w2) = run_command e (AptCacheShow package_name) False w1;
                   (found, w3) =
                     (if returncode result = 0 \<and> strip (stdout result) \<noteq> []
                      then (let filename = last (split_ws (strip (stdout result)))
                            in try_mirrors e filename mirrors w2)
                      else (None, w2))
               in case found of
                    Some output_file \<Rightarrow> (Inr (Some output_file), w3)
                  | None \<Rightarrow>
                      (case lookup_url snapshot_urls package_name arch of
                         Some snapshot_url \<Rightarrow>
                           (let output_file = temp_dir @ ''/'' @ basename snapshot_url;
                                (ok, w') = download_package_direct e snapshot_url output_file w3
                            in (Inr (if ok then Some output_file else None), w'))
                       | None \<Rightarrow> (Inr None, w3))))"

definition install_deb_package :: "env \<Rightarrow> path \<Rightarrow> world \<Rightarrow> bool \<times> world" where
  "install_deb_package e deb_file w =
     (if \<not> path_exists w deb_file then (False, w)
      else (let (result, w1) = run_command e (DpkgInstall deb_file) False w;
                (result, w2) =
                  (if returncode result \<noteq> 0
                   then (let (fixed, w') = run_command e AptFixBroken False w1
                         in run_command e (DpkgInstall deb_file) False w')
                   else (result, w1))
            in (returncode result = 0, w2)))"

text \<open>
  The \<open>for package in packages\<close> loop of \<open>install_packages\<close>; \<open>installation_failed\<close>
  is the list it fills. An exception raised in the download ends the loop.
\<close>

fun install_each ::
  "env \<Rightarrow> string \<Rightarrow> string list \<Rightarrow> string list \<Rightarrow> world \<Rightarrow> (error + string list) \<times> world" where
  "install_each e arch [] installation_failed w = (Inr installation_failed, w)"
| "install_each e arch (package # rest) installation_failed w =
     (let (check, w1) = run_command e (DpkgListGrep package) False w
      in if returncode check = 0 then install_each e arch rest installation_failed w1
         else (let (result, w2) = run_command e (AptInstall package) False w1
               in if returncode result = 0 then install_each e arch rest installation_failed w2
                  else (case download_deb_package_improved e package arch w2 of
                          (Inl err, w3) \<Rightarrow> (Inl err, w3)
                        | (Inr deb_file, w3) \<Rightarrow>
                            (case deb_file of
                               Some f \<Rightarrow>
                                 (let (installed, w4) = install_deb_package e f w3
                                  in if installed
                                     then install_each e arch rest installation_failed w4
                                     else install_each e arch rest
                                            (installation_failed @ [package]) w4)
                             | None \<Rightarrow>
                                 install_each e arch rest (installation_failed @ [package]) w3))))"

definition zerotier_cli :: path where
  "zerotier_cli = ''/usr/sbin/zerotier-cli''"

definition packages :: "string list" where
  "packages = [''bridge-utils'', ''ifupdown'']"

definition install_packages :: "env \<Rightarrow> world \<Rightarrow> (error + unit) \<times> world" where
  "install_packages e w =
     (let (result, w1) = run_command e AptUpdate False w;
          (arch, w2) = get_architecture e w1
      in and_then (install_each e arch packages [] w2) (\<lambda>installation_failed w3.
           let w4 = (if installation_failed \<noteq> []
                     then w3\<lparr>trace := trace w3 @ [Reported installation_failed]\<rparr> else w3)
           in and_then
                (if path_exists w4 zerotier_cli then (Inr (), w4)
                 else (let (result, w5) = run_command e InstallZeroTier False w4
                       in if returncode result = 0 then (Inr (), w5)
                          else (Inl (SystemExit 1), w5)))
                (\<lambda>installed w6.
                   if ''ifupdown'' \<in> set installation_failed
                   then and_then (input AskContinueAnyway w6) (\<lambda>answer w7.
                          if \<not> says_yes answer then (Inl (SystemExit 1), w7) else (Inr (), w7))
                   else (Inr (), w6))))"

section \<open>Operator input\<close>

definition check_root :: "env \<Rightarrow> world \<Rightarrow> (error + unit) \<times> world" where
  "check_root e w = (if geteuid e \<noteq> 0 then (Inl (SystemExit 1), w) else (Inr (), w))"

definition isdigit :: "char \<Rightarrow> bool" where
  "isdigit c = (48 \<le> (of_char c :: nat) \<and> (of_char c :: nat) \<le> 57)"

text \<open>
  \<open>re.match(r'^(\d{1,3}\.){n}\d{1,3}$', s)\<close>: each group is a whole run of one to three
  digits; \<open>$\<close> is the end of the text, or the place before a final newline.
\<close>

fun match_groups :: "nat \<Rightarrow> string \<Rightarrow> bool" where
  "match_groups 0 s =
     (let g = takeWhile isdigit s; rest = dropWhile isdigit s
      in 1 \<le> length g \<and> length g \<le> 3 \<and> (rest = [] \<or> rest = [NL]))"
| "match_groups (Suc n) s =
     (let g = takeWhile isdigit s; rest = dropWhile isdigit s
      in 1 \<le> length g \<and> length g \<le> 3 \<and>
         (case rest of [] \<Rightarrow> False | c # cs \<Rightarrow> c = CHR ''.'' \<and> match_groups n cs))"

definition ip_format :: "string \<Rightarrow> bool" where
  "ip_format s = match_groups 3 s"

text \<open>
  The two \<open>while True\<close> loops of \<open>get_user_input\<close>: ask until the answer has the
  format of an address.
\<close>

function ask_ip :: "prompt \<Rightarrow> world \<Rightarrow> (error + string) \<times> world" where
  "ask_ip p w =
     (case input p w of
        (Inl err, w') \<Rightarrow> (Inl err, w')
      | (Inr answer, w') \<Rightarrow>
          if ip_format (strip answer) then (Inr (strip answer), w') else ask_ip p w')"
  by pat_completeness auto
termination
  by (relation "measure (\<lambda>(p, w). length (inputs w))")
     (auto simp: input_def split: list.splits)

declare ask_ip.simps [simp del]

text \<open>\<open>input(...).strip() or default\<close>.\<close>

definition or_default :: "string \<Rightarrow> string \<Rightarrow> string" where
  "or_default answer fallback = (if strip answer = [] then fallback else strip answer)"

definition get_user_input :: "env \<Rightarrow> world \<Rightarrow> (error + run_config) \<times> world" where
  "get_user_input e w =
     (let (listed, w1) = run_command e IpLinkShow True w;
          default_interface = ''eth0''
      in and_then (input AskPhysicalInterface w1) (\<lambda>answer w2.
           let interface = or_default answer default_interface;
               (shown, w3) = run_command e (IpAddrShow interface) True w2
           in and_then (ask_ip AskBridgeIp w3) (\<lambda>bridge_ip w4.
                let default_netmask = ''255.255.255.0''
                in and_then (input AskNetmask w4) (\<lambda>answer w5.
                     let netmask = or_default answer default_netmask
                     in and_then (ask_ip AskGateway w5) (\<lambda>gateway w6.
                          let default_dns = ''8.8.8.8 8.8.4.4''
                          in and_then (input AskDns w6) (\<lambda>answer w7.
                               let dns = or_default answer default_dns
                               in and_then (input AskZeroTierNetwork w7) (\<lambda>answer w8.
                                    let zt_network = strip answer;
                                        config = \<lparr>physical_interface = interface,
                                                  bridge_ip = bridge_ip,
                                                  netmask = netmask,
                                                  gateway = gateway,
                                                  dns = dns,
                                                  zerotier_network =
                                                    (if length zt_network = 16
                                                     then Some zt_network else None)\<rparr>
                                    in and_then (input AskProceed w8) (\<lambda>answer w9.
                                         if \<not> says_yes answer then (Inl (SystemExit 0), w9)
                                         else (Inr config, w9)))))))))"

section \<open>The overlay network\<close>

text \<open>The truth value Python gives an optional string: \<open>None\<close> and \<open>''\<close> are false.\<close>

definition truthy :: "string option \<Rightarrow> bool" where
  "truthy v = (case v of None \<Rightarrow> False | Some s \<Rightarrow> s \<noteq> [])"

text \<open>\<open>str.split(d)\<close> for a one-character separator.\<close>

fun split_on :: "char \<Rightarrow> string \<Rightarrow> string list" where
  "split_on d [] = [[]]"
| "split_on d (c # cs) =
     (if c = d then [] # split_on d cs
      else (case split_on d cs of [] \<Rightarrow> [[c]] | x # xs \<Rightarrow> (c # x) # xs))"

text \<open>\<open>join_zerotier_network(network_id)\<close>. (The pause after the join is not modelled.)\<close>

definition join_zerotier_network :: "env \<Rightarrow> string option \<Rightarrow> world \<Rightarrow> string option \<times> world" where
  "join_zerotier_network e network_id w =
     (if \<not> truthy network_id then (None, w)
      else (let (result, w1) = run_command e (ZeroTierJoin (the network_id)) False w
            in if returncode result = 0
               then (let (result, w2) = run_command e IpLinkShowZt False w1
                     in if returncode result = 0 \<and> strip (stdout result) \<noteq> []
                        then (Some (hd (split_on NL (strip (stdout result)))), w2)
                        else (None, w2))
               else (None, w1)))"

record zt_info =
  node_id :: string
  version :: string
  status :: string

definition get_zerotier_info :: "env \<Rightarrow> world \<Rightarrow> zt_info option \<times> world" where
  "get_zerotier_info e w =
     (let (result, w') = run_command e ZeroTierInfo False w
      in if returncode result = 0
         then (let parts = split_ws (strip (stdout result))
               in if length parts \<ge> 3
                  then (Some \<lparr>node_id = parts ! 2,
                              version = (if length parts > 3 then parts ! 3 else ''unknown''),
                              status = (if length parts > 4 then parts ! 4 else ''unknown'')\<rparr>, w')
                  else (None, w'))
         else (None, w'))"

text \<open>\<open>\w\<close> of a regular expression on text: letters, digits, numbers and the underscore.\<close>

definition isword :: "char \<Rightarrow> bool" where
  "isword c =
     (let n = (of_char c :: nat)
      in (48 \<le> n \<and> n \<le> 57) \<or> (65 \<le> n \<and> n \<le> 90) \<or> n = 95 \<or> (97 \<le> n \<and> n \<le> 122)
         \<or> n \<in> set [170, 178, 179, 181, 185, 186, 188, 189, 190]
         \<or> (192 \<le> n \<and> n \<le> 214) \<or> (216 \<le> n \<and> n \<le> 246) \<or> 248 \<le> n)"

definition ishex :: "char \<Rightarrow> bool" where
  "ishex c =
     (let n = (of_char c :: nat) in (48 \<le> n \<and> n \<le> 57) \<or> (97 \<le> n \<and> n \<le> 102))"

text \<open>
  \<open>re.search(r'\b([a-f0-9]{16})\b', line)\<close>: the leftmost run of sixteen such characters
  with no word character before or after it. The first argument says whether the
  character before the place looked at is a word character.
\<close>

fun search_network_id :: "bool \<Rightarrow> string \<Rightarrow> string option" where
  "search_network_id in_word [] = None"
| "search_network_id in_word (c # cs) =
     (let candidate = take 16 (c # cs); rest = drop 16 (c # cs)
      in if \<not> in_word \<and> length candidate = 16 \<and> list_all ishex candidate
            \<and> (rest = [] \<or> \<not> isword (hd rest))
         then Some candidate
         else search_network_id (isword c) cs)"

text \<open>The \<open>for line in result.stdout.split('\n')\<close> loop of \<open>configure_zerotier_managed\<close>.\<close>

fun find_network_id :: "string \<Rightarrow> string list \<Rightarrow> string option" where
  "find_network_id zt_interface [] = None"
| "find_network_id zt_interface (line # rest) =
     (if sublist zt_interface line
      then (case search_network_id False line of
              Some network_id \<Rightarrow> Some network_id
            | None \<Rightarrow> find_network_id zt_interface rest)
      else find_network_id zt_interface rest)"

definition configure_zerotier_managed :: "env \<Rightarrow> string option \<Rightarrow> world \<Rightarrow> bool \<times> world" where
  "configure_zerotier_managed e zt_interface w =
     (if \<not> truthy zt_interface then (False, w)
      else (let (result, w1) = run_command e ZeroTierListNetworks False w
            in if returncode result \<noteq> 0 then (False, w1)
               else (case find_network_id (the zt_interface) (split_on NL (stdout result)) of
                       None \<Rightarrow> (False, w1)
                     | Some network_id \<Rightarrow>
                         (let (result, w2) = run_command e (ZeroTierSet network_id) False w1
                          in (returncode result = 0, w2)))))"

section \<open>The boot action\<close>

definition cron_command :: "string \<Rightarrow> string" where
  "cron_command zt_interface =
     ''@reboot sleep 45 && /usr/sbin/brctl addif br0 '' @ zt_interface
       @ '' >> /tmp/bridge-setup.log 2>&1''"

definition create_cron_job :: "env \<Rightarrow> string option \<Rightarrow> world \<Rightarrow> bool \<times> world" where
  "create_cron_job e zt_interface w =
     (if \<not> truthy zt_interface then (False, w)
      else (let (result, w1) = run_command e CrontabList False w;
                current_cron = (if returncode result = 0 then stdout result else '''')
            in if sublist (cron_command (the zt_interface)) current_cron then (True, w1)
               else (let new_cron = current_cron @ [NL] @ cron_command (the zt_interface) @ [NL];
                         (result, w2) = run_command e (CrontabInstall new_cron) False w1
                     in (returncode result = 0, w2))))"

section \<open>The orchestrator\<close>

text \<open>
  \<open>print_portal_instructions\<close> asks the client for the node's identity and prints;
  \<open>print_final_instructions\<close> only prints.
\<close>

definition print_portal_instructions :: "env \<Rightarrow> run_config \<Rightarrow> world \<Rightarrow> world" where
  "print_portal_instructions e config w = snd (get_zerotier_info e w)"

definition print_final_instructions :: "run_config \<Rightarrow> string option \<Rightarrow> world \<Rightarrow> world" where
  "print_final_instructions config zt_interface w = w"

definition main :: "env \<Rightarrow> world \<Rightarrow> (error + unit) \<times> world" where
  "main e w =
     and_then (check_root e w) (\<lambda>checked w0.
     and_then (get_user_input e w0) (\<lambda>config w1.
     and_then (install_packages e w1) (\<lambda>installed w2.
     and_then (configure_dhcpcd e w2) (\<lambda>configured w3.
       if \<not> configured then (Inl (SystemExit 1), w3)
       else (let (written, w4) = configure_network_interfaces e config w3
             in if \<not> written then (Inl (SystemExit 1), w4)
                else (let (zt_interface, w5) =
                            (if truthy (zerotier_network config)
                             then (let (zt_interface, w') =
                                         join_zerotier_network e (zerotier_network config) w4
                                   in if truthy zt_interface
                                      then (let (managed, w'') =
                                                  configure_zerotier_managed e zt_interface w';
                                                (scheduled, w''') =
                                                  create_cron_job e zt_interface w''
                                            in (zt_interface, w'''))
                                      else (zt_interface, w'))
                             else (None, w4));
                          w6 = print_portal_instructions e config w5;
                          w7 = print_final_instructions config zt_interface w6
                      in (Inr (), w7)))))))"

text \<open>
  The script as a process: \<open>sys.exit(n)\<close> ends it with status \<open>n\<close>, any other exception
  is caught at the top and ends it with status 1, a normal return with status 0.
\<close>

definition script :: "env \<Rightarrow> world \<Rightarrow> int \<times> world" where
  "script e w =
     (case main e w of
        (Inr done, w') \<Rightarrow> (0, w')
      | (Inl (SystemExit n), w') \<Rightarrow> (n, w')
      | (Inl EOFError, w') \<Rightarrow> (1, w')
      | (Inl OSError, w') \<Rightarrow> (1, w'))"

section \<open>Notions used to state the properties\<close>

text \<open>The number of places of a text at which a pattern starts.\<close>

fun occurrences :: "string \<Rightarrow> string \<Rightarrow> nat" where
  "occurrences p [] = (if p = [] then 1 else 0)"
| "occurrences p (c # cs) = (if prefix p (c # cs) then 1 else 0) + occurrences p cs"

text \<open>
  Two hosts to run the script on: one where every command succeeds and prints nothing,
  one where every command fails. Both let the script open its files and make its
  directory; neither has anything to download.
\<close>

definition obliging_host :: env where
  "obliging_host =
     \<lparr>geteuid = 0, shell = (\<lambda>n c. (0, '''')), fetched = (\<lambda>n url. None),
      strftime = (\<lambda>n. ''20251101_120000''), can_read = (\<lambda>p. True),
      can_write = (\<lambda>p. True), can_makedirs = (\<lambda>p. True),
      requoted = (\<lambda>text. None), reread = (\<lambda>table. table)\<rparr>"

definition failing_host :: env where
  "failing_host =
     \<lparr>geteuid = 0, shell = (\<lambda>n c. (1, '''')), fetched = (\<lambda>n url. None),
      strftime = (\<lambda>n. ''20251101_120000''), can_read = (\<lambda>p. True),
      can_write = (\<lambda>p. True), can_makedirs = (\<lambda>p. True),
      requoted = (\<lambda>text. None), reread = (\<lambda>table. table)\<rparr>"

text \<open>A world at the start of a run, with the given files and answers of the operator.\<close>

definition fresh_world :: "(path \<times> string) list \<Rightarrow> string list \<Rightarrow> world" where
  "fresh_world fs answers =
     \<lparr>files = map_of fs, crontab = None, inputs = answers, ticks = 0, trace = []\<rparr>"

definition example_config :: run_config where
  "example_config =
     \<lparr>physical_interface = ''eth0'', bridge_ip = ''192.168.1.2'',
      netmask = ''255.255.255.0'', gateway = ''192.168.1.1'', dns = ''8.8.8.8 8.8.4.4'',
      zerotier_network = None\<rparr>"

text \<open>
  The answers of an operator who bridges \<open>eth1\<close>, takes the defaults for netmask and
  name servers, joins no overlay network and confirms.
\<close>

definition eth1_answers :: "string list" where
  "eth1_answers = [''eth1'', ''192.168.1.2'', '''', ''192.168.1.1'', '''', '''', ''yes'']"

text \<open>A world whose job table already holds the boot action for \<open>zt0\<close> twice.\<close>

definition doubled_table :: world where
  "doubled_table =
     (fresh_world [] [])\<lparr>crontab := Some (cron_command ''zt0'' @ [NL] @ cron_command ''zt0'' @ [NL])\<rparr>"

text \<open>
  The commands of the overlay stages: joining the network and finding its interface,
  the managed-routes setting, and the job table. \<open>overlay_events\<close> keeps what a run did
  of these.
\<close>

fun overlay_command :: "command \<Rightarrow> bool" where
  "overlay_command (ZeroTierJoin network_id) = True"
| "overlay_command IpLinkShowZt = True"
| "overlay_command ZeroTierListNetworks = True"
| "overlay_command (ZeroTierSet network_id) = True"
| "overlay_command CrontabList = True"
| "overlay_command (CrontabInstall new_cron) = True"
| "overlay_command c = False"

fun overlay_event :: "event \<Rightarrow> bool" where
  "overlay_event (Ran c) = overlay_command c"
| "overlay_event ev = False"

definition overlay_events :: "world \<Rightarrow> event list" where
  "overlay_events w = filter overlay_event (trace w)"

text \<open>The answers typed at one question, in the order they were typed.\<close>

fun answers_to :: "prompt \<Rightarrow> event list \<Rightarrow> string option list" where
  "answers_to p [] = []"
| "answers_to p (Asked q answer # evs) =
     (if q = p then answer # answers_to p evs else answers_to p evs)"
| "answers_to p (ev # evs) = answers_to p evs"

text \<open>The identifiers handed to \<open>zerotier-cli join\<close>, in the order of the joins.\<close>

fun joined :: "event list \<Rightarrow> string list" where
  "joined [] = []"
| "joined (Ran (ZeroTierJoin network_id) # evs) = network_id # joined evs"
| "joined (ev # evs) = joined evs"

text \<open>A hexadecimal digit, in either case.\<close>

definition hex_digit :: "char \<Rightarrow> bool" where
  "hex_digit c =
     (let n = (of_char c :: nat)
      in (48 \<le> n \<and> n \<le> 57) \<or> (65 \<le> n \<and> n \<le> 70) \<or> (97 \<le> n \<and> n \<le> 102))"


definition full_id_answers :: "string list" where
  "full_id_answers =
     [''eth0'', ''192.168.1.2'', '''', ''192.168.1.1'', '''', ''a84ac5c10a1b2c3d'', ''yes'']"

definition odd_id_answers :: "string list" where
  "odd_id_answers =
     [''eth0'', ''192.168.1.2'', '''', ''192.168.1.1'', '''', ''zzzzzzzzzzzzzzzz'', ''yes'']"


text \<open>
  The operator of \<open>eth1_answers\<close> who answers \<open>no\<close> to the next question put.
\<close>

definition refusing_answers :: "string list" where
  "refusing_answers = eth1_answers @ [''no'']"


text \<open>
  The operator of \<open>eth1_answers\<close> who answers \<open>yes\<close> to the next question put.
\<close>

definition agreeing_answers :: "string list" where
  "agreeing_answers = eth1_answers @ [''yes'']"


text \<open>A file that passes both tests of the writer without holding the second directive.\<close>

definition near_miss_content :: string where
  "near_miss_content = ''denyinterfaces eth0'' @ [NL] @ ''denyinterfaces zt0'' @ [NL]"


section \<open>Facts about the parts\<close>

lemma occurrences_pos_iff: "0 < occurrences p t \<longleftrightarrow> sublist p t"
  by (induction t) (auto simp: sublist_Cons_right)

lemma prefix_apart:
  assumes "d \<notin> set p"
  shows "prefix p (xs @ d # ys) \<longleftrightarrow> prefix p xs"
proof
  assume "prefix p (xs @ d # ys)"
  then obtain r where "xs @ d # ys = p @ r"
    by (auto simp: prefix_def)
  with assms show "prefix p xs"
    by (auto simp: append_eq_append_conv2 prefix_def Cons_eq_append_conv append_eq_Cons_conv)
next
  assume "prefix p xs"
  then show "prefix p (xs @ d # ys)"
    by (auto simp: prefix_def)
qed

text \<open>A pattern cannot lie across a character that it does not contain.\<close>

lemma occurrences_apart:
  assumes "d \<notin> set p" and "p \<noteq> []"
  shows "occurrences p (xs @ d # ys) = occurrences p xs + occurrences p ys"
proof (induction xs)
  case Nil
  have "\<not> prefix p (d # ys)"
    using assms by (cases p) auto
  with assms show ?case by simp
next
  case (Cons x xs)
  have "prefix p ((x # xs) @ d # ys) \<longleftrightarrow> prefix p (x # xs)"
    using prefix_apart [OF assms(1), of "x # xs" ys] .
  with Cons show ?case by simp
qed

lemma backup_file_keeps_file:
  "files (snd (backup_file e filepath w)) filepath = files w filepath"
  by (simp add: backup_file_def run_command_def outcome_def effect_def Let_def
           split: prod.splits)

lemma backup_file_trace:
  "trace (snd (backup_file e filepath w)) =
     trace w @ (if path_exists w filepath
                then [Ran (Cp filepath (filepath @ ''.backup.'' @ strftime e (ticks w)))]
                else [])"
  by (simp add: backup_file_def run_command_def outcome_def effect_def Let_def
           split: prod.splits)

lemma configure_dhcpcd_existing:
  assumes "files w dhcpcd_conf = Some content"
    and "can_read e dhcpcd_conf" and "can_write e dhcpcd_conf"
  shows "fst (configure_dhcpcd e w) = Inr True"
    and "files (snd (configure_dhcpcd e w)) dhcpcd_conf
           = Some (if already_configured content then content else content @ dhcpcd_block)"
    and "trace (snd (configure_dhcpcd e w))
           = trace (snd (backup_file e dhcpcd_conf w))
               @ (if already_configured content then [] else [Wrote dhcpcd_conf])"
  using assms backup_file_keeps_file [of e dhcpcd_conf w]
  by (auto simp: configure_dhcpcd_def and_then_def path_exists_def read_file_def
        append_file_def Let_def split: prod.splits)

lemma block_configured: "already_configured (content @ dhcpcd_block)"
proof -
  have "already_configured dhcpcd_block"
    by (simp add: already_configured_def dhcpcd_block_def unlines_def sublist_code)
  then show ?thesis
    by (auto simp: already_configured_def sublist_append)
qed

lemma block_occurrences:
  "occurrences ''denyinterfaces eth0'' (content @ dhcpcd_block)
     = Suc (occurrences ''denyinterfaces eth0'' content)"
  "occurrences ''denyinterfaces zt'' (content @ dhcpcd_block)
     = Suc (occurrences ''denyinterfaces zt'' content)"
  "occurrences ''denyinterfaces zt*'' (content @ dhcpcd_block)
     = Suc (occurrences ''denyinterfaces zt*'' content)"
  by (simp_all add: dhcpcd_block_def occurrences_apart unlines_def)

section \<open>The network-interfaces file is generated whole\<close>

text \<open>
  C9: for the physical interface \<open>eth0\<close>, bridge address \<open>192.168.1.2\<close>, netmask
  \<open>255.255.255.0\<close>, gateway \<open>192.168.1.1\<close> and name servers \<open>8.8.8.8 8.8.4.4\<close> the
  generated body consists of exactly the lines listed: \<open>eth0\<close> in manual mode, the bridge
  \<open>br0\<close> in static mode with that address, netmask, gateway and name-server line,
  \<open>bridge_ports eth0\<close>, \<open>bridge_stp off\<close> and \<open>bridge_fd 0\<close>. For every configuration
  the writer succeeds exactly when the file can be opened for writing, and the file then
  holds the generated body and nothing of what it held before; otherwise it is left as
  it was.
\<close>

theorem interfaces_file_generated:
  "split_on NL (interfaces_config example_config) =
     [''# /etc/network/interfaces'',
      ''# Configured by zerotier_bridge_setup.py'',
      '''',
      ''# Loopback interface'',
      ''auto lo'',
      ''iface lo inet loopback'',
      '''',
      ''# Physical interface - no IP configuration (manual mode)'',
      ''auto eth0'',
      ''iface eth0 inet manual'',
      '''',
      ''# Bridge interface'',
      ''auto br0'',
      ''iface br0 inet static'',
      ''    address 192.168.1.2'',
      ''    netmask 255.255.255.0'',
      ''    gateway 192.168.1.1'',
      ''    dns-nameservers 8.8.8.8 8.8.4.4'',
      ''    bridge_ports eth0'',
      ''    bridge_stp off'',
      ''    bridge_fd 0'',
      ''    bridge_maxwait 0'',
      '''']
   \<and> fst (configure_network_interfaces e config w) = can_write e interfaces_file
   \<and> files (snd (configure_network_interfaces e config w)) interfaces_file
        = (if can_write e interfaces_file then Some (interfaces_config config)
           else files w interfaces_file)"
proof (intro conjI)
  show "split_on NL (interfaces_config example_config) =
     [''# /etc/network/interfaces'',
      ''# Configured by zerotier_bridge_setup.py'',
      '''',
      ''# Loopback interface'',
      ''auto lo'',
      ''iface lo inet loopback'',
      '''',
      ''# Physical interface - no IP configuration (manual mode)'',
      ''auto eth0'',
      ''iface eth0 inet manual'',
      '''',
      ''# Bridge interface'',
      ''auto br0'',
      ''iface br0 inet static'',
      ''    address 192.168.1.2'',
      ''    netmask 255.255.255.0'',
      ''    gateway 192.168.1.1'',
      ''    dns-nameservers 8.8.8.8 8.8.4.4'',
      ''    bridge_ports eth0'',
      ''    bridge_stp off'',
      ''    bridge_fd 0'',
      ''    bridge_maxwait 0'',
      '''']"
    by (simp add: interfaces_config_def example_config_def unlines_def)
next
  show "fst (configure_network_interfaces e config w) = can_write e interfaces_file"
    by (simp add: configure_network_interfaces_def write_file_def split: prod.splits)
next
  show "files (snd (configure_network_interfaces e config w)) interfaces_file
        = (if can_write e interfaces_file then Some (interfaces_config config)
           else files w interfaces_file)"
    using backup_file_keeps_file [of e interfaces_file w]
    by (auto simp add: configure_network_interfaces_def write_file_def split: prod.splits)
qed

text \<open>The same on a host whose file had other content before.\<close>

theorem interfaces_file_generated_witness:
  "files (snd (configure_network_interfaces obliging_host example_config
                 (fresh_world [(interfaces_file, ''auto lo'')] []))) interfaces_file
     = Some (interfaces_config example_config)
   \<and> ''iface eth0 inet manual'' \<in> set (split_on NL (interfaces_config example_config))
   \<and> ''    bridge_ports eth0'' \<in> set (split_on NL (interfaces_config example_config))"
  using interfaces_file_generated [of obliging_host example_config
          "fresh_world [(interfaces_file, ''auto lo'')] []"]
  by (simp add: obliging_host_def)

section \<open>A failed backup copy does not stop the run\<close>

text \<open>
  C10: when the file to be changed exists, \<open>backup_file\<close> returns the path with the
  time-stamp suffix whatever the exit status of \<open>cp\<close> is, and leaves the file itself
  as it was; a failing command run with \<open>check=True\<close> comes back from \<open>run_command\<close>
  as a \<open>CalledProcessError\<close> object; and on every host, so also where \<open>cp\<close> fails,
  the network-interfaces file is overwritten and the exclusion file ends up configured
  as soon as the files can be opened.
\<close>

theorem backup_failure_is_not_fatal:
  "(path_exists w filepath \<longrightarrow>
      fst (backup_file e filepath w)
        = Some (filepath @ ''.backup.'' @ strftime e (ticks w))
      \<and> files (snd (backup_file e filepath w)) filepath = files w filepath)
   \<and> (fst (outcome e w command) \<noteq> 0 \<longrightarrow>
        fst (run_command e command True w)
          = CalledProcessError (fst (outcome e w command)) (snd (outcome e w command)))
   \<and> (can_write e interfaces_file \<longrightarrow>
        fst (configure_network_interfaces e config w) = True
        \<and> files (snd (configure_network_interfaces e config w)) interfaces_file
            = Some (interfaces_config config))
   \<and> (path_exists w dhcpcd_conf \<and> can_read e dhcpcd_conf \<and> can_write e dhcpcd_conf \<longrightarrow>
        fst (configure_dhcpcd e w) = Inr True
        \<and> already_configured (the (files (snd (configure_dhcpcd e w)) dhcpcd_conf)))"
proof (intro conjI impI)
  assume "path_exists w filepath"
  then show "fst (backup_file e filepath w)
        = Some (filepath @ ''.backup.'' @ strftime e (ticks w))"
    by (simp add: backup_file_def Let_def split: prod.splits)
next
  show "files (snd (backup_file e filepath w)) filepath = files w filepath"
    by (rule backup_file_keeps_file)
next
  assume "fst (outcome e w command) \<noteq> 0"
  then show "fst (run_command e command True w)
          = CalledProcessError (fst (outcome e w command)) (snd (outcome e w command))"
    by (auto simp add: run_command_def Let_def split: prod.splits)
next
  assume "can_write e interfaces_file"
  then show "fst (configure_network_interfaces e config w) = True"
    by (simp add: configure_network_interfaces_def write_file_def split: prod.splits)
next
  assume "can_write e interfaces_file"
  then show "files (snd (configure_network_interfaces e config w)) interfaces_file
            = Some (interfaces_config config)"
    by (simp add: configure_network_interfaces_def write_file_def split: prod.splits)
next
  assume a: "path_exists w dhcpcd_conf \<and> can_read e dhcpcd_conf \<and> can_write e dhcpcd_conf"
  then obtain content where "files w dhcpcd_conf = Some content"
    by (auto simp: path_exists_def)
  with a show "fst (configure_dhcpcd e w) = Inr True"
    by (simp add: configure_dhcpcd_existing(1))
next
  assume a: "path_exists w dhcpcd_conf \<and> can_read e dhcpcd_conf \<and> can_write e dhcpcd_conf"
  then obtain content where c: "files w dhcpcd_conf = Some content"
    by (auto simp: path_exists_def)
  show "already_configured (the (files (snd (configure_dhcpcd e w)) dhcpcd_conf))"
    using a c configure_dhcpcd_existing(2) [of w content e] block_configured [of content]
    by auto
qed

text \<open>On the host where every command fails, \<open>cp\<close> included.\<close>

theorem backup_failure_is_not_fatal_witness:
  "path_exists (fresh_world [(dhcpcd_conf, ''# mine''), (interfaces_file, ''auto lo'')] [])
       dhcpcd_conf
   \<and> fst (outcome failing_host
            (fresh_world [(dhcpcd_conf, ''# mine''), (interfaces_file, ''auto lo'')] [])
            (Cp dhcpcd_conf (dhcpcd_conf @ ''.backup.20251101_120000''))) \<noteq> 0
   \<and> fst (backup_file failing_host dhcpcd_conf
            (fresh_world [(dhcpcd_conf, ''# mine''), (interfaces_file, ''auto lo'')] []))
       = Some ''/etc/dhcpcd.conf.backup.20251101_120000''
   \<and> fst (run_command failing_host (Cp dhcpcd_conf (dhcpcd_conf @ ''.backup.20251101_120000''))
            True (fresh_world [(dhcpcd_conf, ''# mine''), (interfaces_file, ''auto lo'')] []))
       = CalledProcessError 1 ''''
   \<and> files (snd (configure_network_interfaces failing_host example_config
                   (fresh_world [(dhcpcd_conf, ''# mine''), (interfaces_file, ''auto lo'')] [])))
         interfaces_file
       = Some (interfaces_config example_config)
   \<and> fst (configure_dhcpcd failing_host
            (fresh_world [(dhcpcd_conf, ''# mine''), (interfaces_file, ''auto lo'')] []))
       = Inr True"
  using backup_failure_is_not_fatal [of
          "fresh_world [(dhcpcd_conf, ''# mine''), (interfaces_file, ''auto lo'')] []"
          dhcpcd_conf failing_host
          "Cp dhcpcd_conf (dhcpcd_conf @ ''.backup.20251101_120000'')" example_config]
  by (simp add: failing_host_def fresh_world_def path_exists_def outcome_def dhcpcd_conf_def
        interfaces_file_def)

section \<open>The DHCP-client exclusion file is written at most once\<close>

lemma block_tests:
  "sublist ''denyinterfaces eth0'' (content @ dhcpcd_block)"
  "sublist ''denyinterfaces zt'' (content @ dhcpcd_block)"
  using block_configured [of content] by (simp_all add: already_configured_def)

text \<open>
  C1, as the code has it. The writer tests whether the content holds the two texts
  \<open>denyinterfaces eth0\<close> and \<open>denyinterfaces zt\<close> anywhere (a line \<open>denyinterfaces zt0\<close>
  passes the second test). For every initial content of the exclusion file, on a host
  where the file can be read and written: when both tests pass, nothing is written and
  the content is left as it is; otherwise the block with the two directive lines
  \<open>denyinterfaces eth0\<close> and \<open>denyinterfaces zt*\<close> is appended once, which raises the
  number of occurrences of each by exactly one. After the run both tests pass, and a
  second run in succession writes nothing and leaves the content as the first run left
  it.
\<close>

theorem dhcpcd_writer_idempotent:
  assumes "files w dhcpcd_conf = Some content"
    and "can_read e dhcpcd_conf" and "can_write e dhcpcd_conf"
    and "tested = (sublist ''denyinterfaces eth0'' content \<and> sublist ''denyinterfaces zt'' content)"
    and "after = the (files (snd (configure_dhcpcd e w)) dhcpcd_conf)"
  shows "files (snd (configure_dhcpcd e w)) dhcpcd_conf
           = Some (if tested then content else content @ dhcpcd_block)
       \<and> trace (snd (configure_dhcpcd e w))
           = trace (snd (backup_file e dhcpcd_conf w)) @ (if tested then [] else [Wrote dhcpcd_conf])
       \<and> occurrences ''denyinterfaces eth0'' after
           = occurrences ''denyinterfaces eth0'' content + (if tested then 0 else 1)
       \<and> occurrences ''denyinterfaces zt*'' after
           = occurrences ''denyinterfaces zt*'' content + (if tested then 0 else 1)
       \<and> sublist ''denyinterfaces eth0'' after \<and> sublist ''denyinterfaces zt'' after
       \<and> files (snd (configure_dhcpcd e (snd (configure_dhcpcd e w)))) dhcpcd_conf = Some after
       \<and> trace (snd (configure_dhcpcd e (snd (configure_dhcpcd e w))))
           = trace (snd (backup_file e dhcpcd_conf (snd (configure_dhcpcd e w))))"
proof -
  let ?next = "snd (configure_dhcpcd e w)"
  have t: "tested = already_configured content"
    by (simp add: assms(4) already_configured_def)
  have first: "files ?next dhcpcd_conf = Some (if tested then content else content @ dhcpcd_block)"
    using configure_dhcpcd_existing(2) [OF assms(1,2,3)] t by simp
  then have a: "after = (if tested then content else content @ dhcpcd_block)"
    by (simp add: assms(5))
  have events: "trace ?next = trace (snd (backup_file e dhcpcd_conf w))
               @ (if tested then [] else [Wrote dhcpcd_conf])"
    using configure_dhcpcd_existing(3) [OF assms(1,2,3)] t by simp
  have passes: "sublist ''denyinterfaces eth0'' after \<and> sublist ''denyinterfaces zt'' after"
    using a assms(4) block_tests [of content] by (cases tested) simp_all
  then have settled: "already_configured after"
    by (simp add: already_configured_def)
  from first a have held: "files ?next dhcpcd_conf = Some after"
    by simp
  have second: "files (snd (configure_dhcpcd e ?next)) dhcpcd_conf = Some after"
    using configure_dhcpcd_existing(2) [OF held assms(2,3)] settled by simp
  have quiet: "trace (snd (configure_dhcpcd e ?next)) = trace (snd (backup_file e dhcpcd_conf ?next))"
    using configure_dhcpcd_existing(3) [OF held assms(2,3)] settled by simp
  have counts: "occurrences ''denyinterfaces eth0'' after
           = occurrences ''denyinterfaces eth0'' content + (if tested then 0 else 1)"
    "occurrences ''denyinterfaces zt*'' after
           = occurrences ''denyinterfaces zt*'' content + (if tested then 0 else 1)"
    using a block_occurrences(1,3) [of content] by (cases tested; simp)+
  from first events counts passes second quiet show ?thesis
    by simp
qed


text \<open>
  A file that holds neither directive holds each exactly once after the run; a file that
  holds \<open>denyinterfaces eth0\<close> and \<open>denyinterfaces zt0\<close> passes both tests, is left as it
  is, and does not hold \<open>denyinterfaces zt*\<close> afterwards.
\<close>

theorem dhcpcd_writer_idempotent_witness:
  "occurrences ''denyinterfaces eth0''
     (the (files (snd (configure_dhcpcd obliging_host
                         (fresh_world [(dhcpcd_conf, ''# mine'' @ [NL])] []))) dhcpcd_conf)) = 1
   \<and> occurrences ''denyinterfaces zt*''
     (the (files (snd (configure_dhcpcd obliging_host
                         (fresh_world [(dhcpcd_conf, ''# mine'' @ [NL])] []))) dhcpcd_conf)) = 1
   \<and> files (snd (configure_dhcpcd obliging_host
                   (snd (configure_dhcpcd obliging_host
                           (fresh_world [(dhcpcd_conf, ''# mine'' @ [NL])] []))))) dhcpcd_conf
       = Some (''# mine'' @ [NL] @ dhcpcd_block)
   \<and> files (snd (configure_dhcpcd obliging_host
                   (fresh_world [(dhcpcd_conf, near_miss_content)] []))) dhcpcd_conf
       = Some near_miss_content
   \<and> occurrences ''denyinterfaces zt*''
     (the (files (snd (configure_dhcpcd obliging_host
                         (fresh_world [(dhcpcd_conf, near_miss_content)] []))) dhcpcd_conf)) = 0"
proof -
  have readable: "can_read obliging_host dhcpcd_conf" and writable: "can_write obliging_host dhcpcd_conf"
    by (simp_all add: obliging_host_def)
  have mine: "files (fresh_world [(dhcpcd_conf, ''# mine'' @ [NL])] []) dhcpcd_conf
                = Some (''# mine'' @ [NL])"
    and near: "files (fresh_world [(dhcpcd_conf, near_miss_content)] []) dhcpcd_conf
                = Some near_miss_content"
    by (simp_all add: fresh_world_def)
  have untested: "\<not> (sublist ''denyinterfaces eth0'' (''# mine'' @ [NL])
                      \<and> sublist ''denyinterfaces zt'' (''# mine'' @ [NL]))"
    by (simp add: sublist_code)
  have tested: "sublist ''denyinterfaces eth0'' near_miss_content
                \<and> sublist ''denyinterfaces zt'' near_miss_content"
    by (simp add: near_miss_content_def sublist_code)
  have none: "occurrences ''denyinterfaces eth0'' (''# mine'' @ [NL]) = 0"
    "occurrences ''denyinterfaces zt*'' (''# mine'' @ [NL]) = 0"
    "occurrences ''denyinterfaces zt*'' near_miss_content = 0"
    by (simp_all add: near_miss_content_def)
  from dhcpcd_writer_idempotent [OF mine readable writable refl refl]
    dhcpcd_writer_idempotent [OF near readable writable refl refl]
    untested tested none
  show ?thesis
    by (auto simp del: occurrences.simps)
qed

text \<open>
  A file that holds the first directive and not the second holds the first one twice
  after the run.
\<close>

theorem dhcpcd_directive_twice_counterexample:
  "\<not> already_configured (''denyinterfaces eth0'' @ [NL])
   \<and> occurrences ''denyinterfaces eth0''
        (the (files (snd (configure_dhcpcd obliging_host
                            (fresh_world [(dhcpcd_conf, ''denyinterfaces eth0'' @ [NL])] [])))
                dhcpcd_conf)) = 2"
  by code_simp

section \<open>The directives name \<open>eth0\<close>\<close>

text \<open>
  C2 asks for directives that name the interface the operator chose. When the operator
  answers \<open>eth1\<close>, the run completes, the network-interfaces file declares
  \<open>bridge_ports eth1\<close>, and the block appended to the exclusion file denies \<open>eth0\<close>
  and \<open>zt*\<close>; \<open>eth1\<close> does not occur in that file.
\<close>

theorem dhcpcd_names_eth0_whatever_the_interface:
  "physical_interface (projr (fst (get_user_input obliging_host
       (fresh_world [(dhcpcd_conf, ''# mine'' @ [NL])] eth1_answers)))) = ''eth1''
   \<and> fst (main obliging_host (fresh_world [(dhcpcd_conf, ''# mine'' @ [NL])] eth1_answers))
       = Inr ()
   \<and> sublist ''bridge_ports eth1''
       (the (files (snd (main obliging_host
                          (fresh_world [(dhcpcd_conf, ''# mine'' @ [NL])] eth1_answers)))
               interfaces_file))
   \<and> files (snd (main obliging_host
                   (fresh_world [(dhcpcd_conf, ''# mine'' @ [NL])] eth1_answers)))
         dhcpcd_conf
       = Some (''# mine'' @ [NL] @ [NL] @ ''# ZeroTier Bridge Configuration'' @ [NL]
               @ ''# Prevent dhcpcd from managing bridge interfaces'' @ [NL]
               @ ''denyinterfaces eth0'' @ [NL] @ ''denyinterfaces zt*'' @ [NL])
   \<and> \<not> sublist ''eth1''
       (the (files (snd (main obliging_host
                          (fresh_world [(dhcpcd_conf, ''# mine'' @ [NL])] eth1_answers)))
               dhcpcd_conf))"
  by code_simp

section \<open>What the stages run\<close>

text \<open>
  No stage before the join runs a command of the overlay stages, and each stage leaves
  the answers to the questions of the other stages alone.
\<close>

lemma overlay_run_command:
  "overlay_events (snd (run_command e c check w))
     = overlay_events w @ (if overlay_command c then [Ran c] else [])"
  by (simp add: overlay_events_def run_command_def effect_def Let_def
           split: prod.splits command.splits)

lemma overlay_input: "overlay_events (snd (input p w)) = overlay_events w"
  by (simp add: overlay_events_def input_def split: list.splits)

lemma overlay_write_file:
  "overlay_events (snd (write_file e p text w)) = overlay_events w"
  by (simp add: overlay_events_def write_file_def)

lemma overlay_append_file:
  "overlay_events (snd (append_file e p text w)) = overlay_events w"
  by (simp add: overlay_events_def append_file_def)

lemma overlay_backup_file:
  "overlay_events (snd (backup_file e p w)) = overlay_events w"
  by (simp add: backup_file_def overlay_run_command split_def Let_def)

lemma overlay_ask_ip: "overlay_events (snd (ask_ip p w)) = overlay_events w"
proof (induction p w rule: ask_ip.induct)
  case (1 p w)
  show ?case
  proof (cases "input p w")
    case (Pair r w')
    have same: "overlay_events w' = overlay_events w"
      using overlay_input [of p w] Pair by simp
    show ?thesis
    proof (cases r)
      case (Inl err)
      with Pair same show ?thesis
        by (subst ask_ip.simps) simp
    next
      case (Inr answer)
      with Pair same 1 [of r w' answer] show ?thesis
        by (subst ask_ip.simps) simp
    qed
  qed
qed

lemma overlay_and_then:
  "(\<And>a w'. overlay_events (snd (f a w')) = overlay_events w')
     \<Longrightarrow> overlay_events (snd (and_then r f)) = overlay_events (snd r)"
  by (cases r) (auto simp: and_then_def split: sum.splits)

lemma overlay_get_user_input:
  "overlay_events (snd (get_user_input e w)) = overlay_events w"
  by (simp add: get_user_input_def overlay_and_then overlay_run_command overlay_input
        overlay_ask_ip split_def Let_def)

lemma overlay_get_architecture:
  "overlay_events (snd (get_architecture e w)) = overlay_events w"
  by (simp add: get_architecture_def overlay_run_command split_def Let_def)

lemma overlay_download_package_direct:
  "overlay_events (snd (download_package_direct e url out w)) = overlay_events w"
  by (simp add: download_package_direct_def overlay_run_command split_def Let_def)

lemma overlay_try_mirrors:
  "overlay_events (snd (try_mirrors e filename ms w)) = overlay_events w"
  by (induction ms arbitrary: w)
     (simp_all add: overlay_download_package_direct split_def Let_def)

lemma overlay_result:
  "run_command e c check w = (r, w') \<Longrightarrow> \<not> overlay_command c
     \<Longrightarrow> overlay_events w' = overlay_events w"
  "download_package_direct e url out w = (ok, w') \<Longrightarrow> overlay_events w' = overlay_events w"
  "try_mirrors e filename ms w = (found, w') \<Longrightarrow> overlay_events w' = overlay_events w"
  using overlay_run_command [of e c check w] overlay_download_package_direct [of e url out w]
    overlay_try_mirrors [of e filename ms w]
  by simp_all

lemma overlay_download_deb_package_improved:
  "overlay_events (snd (download_deb_package_improved e package_name arch w)) = overlay_events w"
  unfolding download_deb_package_improved_def makedirs_def and_then_def Let_def
  by (auto split: prod.splits option.splits if_splits dest!: overlay_result)

lemma overlay_install_deb_package:
  "overlay_events (snd (install_deb_package e deb_file w)) = overlay_events w"
  unfolding install_deb_package_def Let_def
  by (auto split: prod.splits if_splits dest!: overlay_result)

lemma overlay_result2:
  "download_deb_package_improved e package_name arch w = (found, w')
     \<Longrightarrow> overlay_events w' = overlay_events w"
  "install_deb_package e deb_file w = (ok, w') \<Longrightarrow> overlay_events w' = overlay_events w"
  "get_architecture e w = (a, w') \<Longrightarrow> overlay_events w' = overlay_events w"
  "input p w = (r, w') \<Longrightarrow> overlay_events w' = overlay_events w"
  "backup_file e path w = (b, w') \<Longrightarrow> overlay_events w' = overlay_events w"
  "write_file e path body w = (ok, w') \<Longrightarrow> overlay_events w' = overlay_events w"
  "append_file e path body w = (ok, w') \<Longrightarrow> overlay_events w' = overlay_events w"
  using overlay_download_deb_package_improved [of e package_name arch w]
    overlay_install_deb_package [of e deb_file w] overlay_get_architecture [of e w]
    overlay_input [of p w] overlay_backup_file [of e path w]
    overlay_write_file [of e path body w] overlay_append_file [of e path body w]
  by simp_all

lemma overlay_install_each:
  "overlay_events (snd (install_each e arch ps failed w)) = overlay_events w"
proof (induction ps arbitrary: failed w)
  case Nil
  show ?case by simp
next
  case (Cons package rest)
  show ?case
    by (auto simp: Cons Let_def split: prod.splits option.splits sum.splits
          dest!: overlay_result overlay_result2)
qed

lemma overlay_install_each_result:
  "install_each e arch ps failed w = (r, w') \<Longrightarrow> overlay_events w' = overlay_events w"
  using overlay_install_each [of e arch ps failed w] by simp

lemma overlay_traced: "overlay_events (w\<lparr>trace := trace w @ [Reported failed]\<rparr>) = overlay_events w"
  by (simp add: overlay_events_def)

lemma overlay_install_packages:
  "overlay_events (snd (install_packages e w)) = overlay_events w"
proof -
  obtain r w1 where 1: "run_command e AptUpdate False w = (r, w1)"
    by (cases "run_command e AptUpdate False w")
  obtain arch w2 where 2: "get_architecture e w1 = (arch, w2)"
    by (cases "get_architecture e w1")
  define rest where "rest = (\<lambda>installation_failed w3.
           let w4 = (if installation_failed \<noteq> []
                     then w3\<lparr>trace := trace w3 @ [Reported installation_failed]\<rparr> else w3)
           in and_then
                (if path_exists w4 zerotier_cli then (Inr (), w4)
                 else (let (result, w5) = run_command e InstallZeroTier False w4
                       in if returncode result = 0 then (Inr (), w5)
                          else (Inl (SystemExit 1), w5)))
                (\<lambda>installed w6.
                   if ''ifupdown'' \<in> set installation_failed
                   then and_then (input AskContinueAnyway w6) (\<lambda>answer w7.
                          if \<not> says_yes answer then (Inl (SystemExit 1), w7) else (Inr (), w7))
                   else (Inr (), w6)))"
  have kept: "overlay_events (snd (rest failed w3)) = overlay_events w3" for failed w3
    by (simp add: rest_def overlay_and_then overlay_input overlay_run_command overlay_traced
          split_def Let_def)
  have "overlay_events w2 = overlay_events w"
    using overlay_result(1) [OF 1] overlay_result2(3) [OF 2] by simp
  moreover have "install_packages e w
      = and_then (install_each e arch packages [] w2) rest"
    by (simp add: install_packages_def 1 2 rest_def)
  ultimately show ?thesis
    using overlay_and_then [of rest "install_each e arch packages [] w2", OF kept]
    by (simp add: overlay_install_each)
qed

lemma overlay_handle_network_manager:
  "overlay_events (snd (handle_network_manager e w)) = overlay_events w"
  unfolding handle_network_manager_def detect_network_manager_def Let_def and_then_def
  by (auto split: prod.splits sum.splits if_splits dest!: overlay_result overlay_result2)

lemma overlay_configure_dhcpcd:
  "overlay_events (snd (configure_dhcpcd e w)) = overlay_events w"
proof -
  define first where "first =
       (if \<not> path_exists w dhcpcd_conf
        then and_then (handle_network_manager e w) (\<lambda>disabled w1.
               (let (created, w2) = write_file e dhcpcd_conf dhcpcd_header w1
                in (Inr created, w2)))
        else (Inr True, w))"
  define rest where "rest = (\<lambda>present w2.
          if \<not> present then (Inr False :: error + bool, w2)
          else (let (backup, w3) = backup_file e dhcpcd_conf w2
                in case read_file e dhcpcd_conf w3 of
                     None \<Rightarrow> (Inr False, w3)
                   | Some content \<Rightarrow>
                       if already_configured content then (Inr True, w3)
                       else (let (appended, w4) = append_file e dhcpcd_conf dhcpcd_block w3
                             in (Inr appended, w4))))"
  have a: "overlay_events (snd first) = overlay_events w"
    by (simp add: first_def overlay_and_then overlay_handle_network_manager overlay_write_file
          split_def Let_def)
  have b: "\<And>present w2. overlay_events (snd (rest present w2)) = overlay_events w2"
    unfolding rest_def
    by (auto simp: Let_def split: prod.splits option.splits dest!: overlay_result2)
  have "configure_dhcpcd e w = and_then first rest"
    by (simp add: configure_dhcpcd_def first_def rest_def)
  with overlay_and_then [of rest first, OF b] a show ?thesis
    by simp
qed

lemma overlay_configure_network_interfaces:
  "overlay_events (snd (configure_network_interfaces e config w)) = overlay_events w"
  by (simp add: configure_network_interfaces_def overlay_write_file overlay_backup_file
        split_def)

lemma overlay_print_portal_instructions:
  "overlay_events (print_portal_instructions e config w) = overlay_events w"
  by (simp add: print_portal_instructions_def get_zerotier_info_def overlay_run_command
        split_def Let_def)



lemma answers_to_append:
  "answers_to p (xs @ ys) = answers_to p xs @ answers_to p ys"
  by (induction p xs rule: answers_to.induct) simp_all

lemma answers_run_command:
  "run_command e c check w = (r, w')
     \<Longrightarrow> answers_to p (trace w') = answers_to p (trace w)"
  by (auto simp: run_command_def effect_def Let_def answers_to_append
        split: prod.splits command.splits if_splits)

lemma answers_input:
  "input q w = (r, w')
     \<Longrightarrow> answers_to p (trace w')
          = answers_to p (trace w)
              @ (if q = p then [case r of Inl err \<Rightarrow> None | Inr answer \<Rightarrow> Some answer] else [])"
  by (auto simp: input_def answers_to_append split: list.splits)

lemma answers_ask_ip:
  "ask_ip q w = (r, w') \<Longrightarrow> q \<noteq> p \<Longrightarrow> answers_to p (trace w') = answers_to p (trace w)"
proof (induction q w arbitrary: r w' rule: ask_ip.induct)
  case (1 q w)
  obtain r1 w1 where i: "input q w = (r1, w1)"
    by (cases "input q w")
  have same: "answers_to p (trace w1) = answers_to p (trace w)"
    using answers_input [OF i, of p] 1(3) by simp
  show ?case
  proof (cases r1)
    case (Inl err)
    with i 1(2) same show ?thesis
      by (subst (asm) ask_ip.simps) simp
  next
    case (Inr answer)
    show ?thesis
    proof (cases "ip_format (strip answer)")
      case True
      with Inr i 1(2) same show ?thesis
        by (subst (asm) ask_ip.simps) simp
    next
      case False
      with Inr i 1(2) have "ask_ip q w1 = (r, w')"
        by (subst (asm) ask_ip.simps) simp
      with 1(1) [of r1 w1 answer r w'] i Inr False 1(3) same show ?thesis
        by simp
    qed
  qed
qed

lemma and_then_returns:
  "and_then r f = (Inr b, w') \<Longrightarrow> \<exists>a w1. r = (Inr a, w1) \<and> f a w1 = (Inr b, w')"
  by (cases r) (auto simp: and_then_def split: sum.splits)

lemmas network_answers =
  answers_run_command [where p = AskZeroTierNetwork]
  answers_input [where p = AskZeroTierNetwork]
  answers_ask_ip [where p = AskZeroTierNetwork]

lemma get_user_input_network:
  assumes "get_user_input e w = (Inr config, w')"
  shows "\<exists>answer. answers_to AskZeroTierNetwork (trace w')
                    = answers_to AskZeroTierNetwork (trace w) @ [Some answer]
                \<and> zerotier_network config
                    = (if length (strip answer) = 16 then Some (strip answer) else None)"
  using assms unfolding get_user_input_def Let_def
  by (auto split: prod.splits if_splits dest!: and_then_returns network_answers; blast)

lemma joined_append: "joined (xs @ ys) = joined xs @ joined ys"
  by (induction xs rule: joined.induct) simp_all

lemma joined_filter: "joined (filter overlay_event evs) = joined evs"
  by (induction evs rule: joined.induct) simp_all

lemma joined_overlay: "joined (trace w) = joined (overlay_events w)"
  by (simp add: overlay_events_def joined_filter)

lemma joined_same: "overlay_events w' = overlay_events w \<Longrightarrow> joined (trace w') = joined (trace w)"
  by (simp add: joined_overlay)

lemma joined_run_command:
  "run_command e c check w = (r, w')
     \<Longrightarrow> joined (trace w') = joined (trace w) @ joined [Ran c]"
  by (auto simp: run_command_def Let_def joined_append split: prod.splits if_splits)

lemma joined_join_zerotier_network:
  "join_zerotier_network e network_id w = (zt_interface, w')
     \<Longrightarrow> joined (trace w')
          = joined (trace w) @ (if truthy network_id then [the network_id] else [])"
  unfolding join_zerotier_network_def Let_def
  by (auto split: prod.splits if_splits dest!: joined_run_command)

lemma joined_configure_zerotier_managed:
  "configure_zerotier_managed e zt_interface w = (managed, w')
     \<Longrightarrow> joined (trace w') = joined (trace w)"
  unfolding configure_zerotier_managed_def Let_def
  by (auto split: prod.splits if_splits option.splits dest!: joined_run_command)

lemma joined_create_cron_job:
  "create_cron_job e zt_interface w = (scheduled, w')
     \<Longrightarrow> joined (trace w') = joined (trace w)"
  unfolding create_cron_job_def Let_def
  by (auto split: prod.splits if_splits dest!: joined_run_command)

lemma joined_stages:
  "get_user_input e w = (r1, w') \<Longrightarrow> joined (trace w') = joined (trace w)"
  "install_packages e w = (r2, w') \<Longrightarrow> joined (trace w') = joined (trace w)"
  "configure_dhcpcd e w = (r3, w') \<Longrightarrow> joined (trace w') = joined (trace w)"
  "configure_network_interfaces e config w = (r4, w') \<Longrightarrow> joined (trace w') = joined (trace w)"
  using overlay_get_user_input [of e w] overlay_install_packages [of e w]
    overlay_configure_dhcpcd [of e w] overlay_configure_network_interfaces [of e config w]
  by (auto intro: joined_same)

lemma joined_print_portal_instructions:
  "joined (trace (print_portal_instructions e config w)) = joined (trace w)"
  by (rule joined_same) (rule overlay_print_portal_instructions)

lemma main_joins:
  assumes "get_user_input e w = (Inr config, w1)"
  shows "joined (trace (snd (main e w))) = joined (trace w)
       \<or> joined (trace (snd (main e w))) = joined (trace w) @ [the (zerotier_network config)]
          \<and> truthy (zerotier_network config)"
  using assms unfolding main_def check_root_def Let_def and_then_def print_final_instructions_def
  by (auto simp: joined_print_portal_instructions
        split: prod.splits sum.splits if_splits
        dest!: joined_stages joined_join_zerotier_network joined_configure_zerotier_managed
          joined_create_cron_job)

lemma returned_parts: "\<not> isl (fst r) \<Longrightarrow> r = (Inr (projr (fst r)), snd r)"
  by (cases r) (auto simp: isl_def)

section \<open>The overlay network identifier\<close>

text \<open>
  C6, as the code has it: for every run of the input stage that returns a configuration,
  the stored overlay network identifier is either absent or a string of exactly 16
  characters (the characters themselves are not examined), and the join command is run
  at most once in the whole run, with exactly the stored identifier, and not at all
  when none is stored.
\<close>

theorem stored_identifier_has_sixteen_characters:
  assumes "get_user_input e w = (Inr config, w1)"
  shows "case zerotier_network config of
           None \<Rightarrow> joined (trace (snd (main e w))) = joined (trace w)
         | Some network_id \<Rightarrow>
             length network_id = 16
             \<and> (joined (trace (snd (main e w))) = joined (trace w)
                \<or> joined (trace (snd (main e w))) = joined (trace w) @ [network_id])"
proof (cases "zerotier_network config")
  case None
  with main_joins [OF assms] show ?thesis
    by (simp add: truthy_def)
next
  case (Some network_id)
  from get_user_input_network [OF assms] Some have "length network_id = 16"
    by (auto split: if_splits)
  with main_joins [OF assms] Some show ?thesis
    by auto
qed

text \<open>The operator who types a sixteen-digit identifier has it stored and joined.\<close>

theorem stored_identifier_has_sixteen_characters_witness:
  "zerotier_network (projr (fst (get_user_input obliging_host
       (fresh_world [(dhcpcd_conf, ''# mine'')] full_id_answers)))) = Some ''a84ac5c10a1b2c3d''
   \<and> joined (trace (snd (main obliging_host
       (fresh_world [(dhcpcd_conf, ''# mine'')] full_id_answers)))) = [''a84ac5c10a1b2c3d'']"
proof -
  let ?w = "fresh_world [(dhcpcd_conf, ''# mine'')] full_id_answers"
  have stored: "zerotier_network (projr (fst (get_user_input obliging_host ?w)))
                  = Some ''a84ac5c10a1b2c3d''"
    by code_simp
  have "\<not> isl (fst (get_user_input obliging_host ?w))"
    by code_simp
  then have returned: "get_user_input obliging_host ?w
          = (Inr (projr (fst (get_user_input obliging_host ?w))),
             snd (get_user_input obliging_host ?w))"
    by (rule returned_parts)
  have ran: "joined (trace (snd (main obliging_host ?w))) \<noteq> joined (trace ?w)"
    by code_simp
  from stored_identifier_has_sixteen_characters [OF returned] stored ran show ?thesis
    by (simp add: fresh_world_def)
qed

text \<open>Sixteen letters \<open>z\<close> are stored and handed to the join command all the same.\<close>

theorem stored_identifier_not_hexadecimal_counterexample:
  "zerotier_network (projr (fst (get_user_input obliging_host
       (fresh_world [(dhcpcd_conf, ''# mine'')] odd_id_answers)))) = Some ''zzzzzzzzzzzzzzzz''
   \<and> \<not> list_all hex_digit ''zzzzzzzzzzzzzzzz''
   \<and> joined (trace (snd (main obliging_host
       (fresh_world [(dhcpcd_conf, ''# mine'')] odd_id_answers)))) = [''zzzzzzzzzzzzzzzz'']"
  by code_simp



section \<open>The conflicting network-management service\<close>

lemma handle_network_manager_refused:
  assumes "fst (shell e (ticks w) IsActiveNetworkManager) = 0"
    and "inputs w = answer # rest" and "\<not> says_yes answer"
  shows "fst (handle_network_manager e w) = Inl (SystemExit 1)"
    and "files (snd (handle_network_manager e w)) = files w"
    and "trace (snd (handle_network_manager e w))
           = trace w @ [Ran IsActiveNetworkManager, Asked AskDisableNetworkManager (Some answer)]"
  using assms
  by (simp_all add: handle_network_manager_def detect_network_manager_def run_command_def
        outcome_def effect_def input_def and_then_def Let_def split_def)

lemma configure_dhcpcd_refused:
  assumes "\<not> path_exists w dhcpcd_conf"
    and "fst (shell e (ticks w) IsActiveNetworkManager) = 0"
    and "inputs w = answer # rest" and "\<not> says_yes answer"
  shows "fst (configure_dhcpcd e w) = Inl (SystemExit 1)"
    and "files (snd (configure_dhcpcd e w)) = files w"
    and "trace (snd (configure_dhcpcd e w))
           = trace w @ [Ran IsActiveNetworkManager, Asked AskDisableNetworkManager (Some answer)]"
proof -
  obtain w' where h: "handle_network_manager e w = (Inl (SystemExit 1), w')"
    using handle_network_manager_refused(1) [OF assms(2,3,4)]
    by (cases "handle_network_manager e w") auto
  then have same: "configure_dhcpcd e w = (Inl (SystemExit 1), w')"
    using assms(1) by (simp add: configure_dhcpcd_def and_then_def)
  from h handle_network_manager_refused(2,3) [OF assms(2,3,4)]
  have "files w' = files w"
    and "trace w' = trace w @ [Ran IsActiveNetworkManager, Asked AskDisableNetworkManager (Some answer)]"
    by simp_all
  with same show "fst (configure_dhcpcd e w) = Inl (SystemExit 1)"
    and "files (snd (configure_dhcpcd e w)) = files w"
    and "trace (snd (configure_dhcpcd e w))
           = trace w @ [Ran IsActiveNetworkManager, Asked AskDisableNetworkManager (Some answer)]"
    by simp_all
qed

lemma returned_unit: "\<not> isl (fst r) \<Longrightarrow> r = (Inr (), snd r)"
  by (cases r; cases "fst r") auto

lemma configure_dhcpcd_present:
  assumes "files v dhcpcd_conf = Some content"
  shows "fst (configure_dhcpcd e v)
           = Inr (can_read e dhcpcd_conf \<and> (already_configured content \<or> can_write e dhcpcd_conf))"
    and "inputs (snd (configure_dhcpcd e v)) = inputs v"
    and "trace (snd (configure_dhcpcd e v))
           = trace v @ [Ran (Cp dhcpcd_conf (dhcpcd_conf @ ''.backup.'' @ strftime e (ticks v)))]
               @ (if can_read e dhcpcd_conf \<and> \<not> already_configured content
                     \<and> can_write e dhcpcd_conf
                  then [Wrote dhcpcd_conf] else [])"
  using assms
  by (auto simp: configure_dhcpcd_def and_then_def path_exists_def read_file_def
        append_file_def backup_file_def run_command_def outcome_def effect_def Let_def
        split: prod.splits)

lemma handle_network_manager_asks:
  assumes "fst (shell e (ticks u) IsActiveNetworkManager) = 0" and "inputs u = answer # rest"
  shows "trace (snd (handle_network_manager e u))
           = trace u @ [Ran IsActiveNetworkManager, Asked AskDisableNetworkManager (Some answer)]
               @ (if says_yes answer then [Ran StopNetworkManager, Ran DisableNetworkManager]
                  else [])"
  using assms
  by (simp add: handle_network_manager_def detect_network_manager_def run_command_def
        outcome_def effect_def input_def and_then_def Let_def split_def)

lemma configure_dhcpcd_rest_extends:
  "prefix (trace w2)
     (trace (snd (if \<not> present then (Inr False :: error + bool, w2)
          else (let (backup, w3) = backup_file e dhcpcd_conf w2
                in case read_file e dhcpcd_conf w3 of
                     None \<Rightarrow> (Inr False, w3)
                   | Some content \<Rightarrow>
                       if already_configured content then (Inr True, w3)
                       else (let (appended, w4) = append_file e dhcpcd_conf dhcpcd_block w3
                             in (Inr appended, w4))))))"
  by (auto simp: backup_file_def run_command_def append_file_def Let_def
        split: prod.splits option.splits)

lemma configure_dhcpcd_asks:
  assumes "\<not> path_exists u dhcpcd_conf"
    and "fst (shell e (ticks u) IsActiveNetworkManager) = 0" and "inputs u = answer # rest"
  shows "prefix (trace u @ [Ran IsActiveNetworkManager,
                            Asked AskDisableNetworkManager (Some answer)])
           (trace (snd (configure_dhcpcd e u)))"
proof -
  obtain r u1 where h: "handle_network_manager e u = (r, u1)"
    by (cases "handle_network_manager e u")
  with handle_network_manager_asks [OF assms(2,3)]
  have asked: "prefix (trace u @ [Ran IsActiveNetworkManager,
                            Asked AskDisableNetworkManager (Some answer)]) (trace u1)"
    by (auto simp: prefix_def)
  show ?thesis
  proof (cases r)
    case (Inl err)
    with h assms(1) have "snd (configure_dhcpcd e u) = u1"
      by (simp add: configure_dhcpcd_def and_then_def)
    with asked show ?thesis by simp
  next
    case (Inr disabled)
    obtain created u2 where c: "write_file e dhcpcd_conf dhcpcd_header u1 = (created, u2)"
      by (cases "write_file e dhcpcd_conf dhcpcd_header u1")
    then have "prefix (trace u1) (trace u2)"
      by (auto simp: write_file_def split: if_splits)
    with asked have upto: "prefix (trace u @ [Ran IsActiveNetworkManager,
                            Asked AskDisableNetworkManager (Some answer)]) (trace u2)"
      by (rule prefix_order.trans)
    define rest where "rest = (\<lambda>present w2.
          if \<not> present then (Inr False :: error + bool, w2)
          else (let (backup, w3) = backup_file e dhcpcd_conf w2
                in case read_file e dhcpcd_conf w3 of
                     None \<Rightarrow> (Inr False, w3)
                   | Some content \<Rightarrow>
                       if already_configured content then (Inr True, w3)
                       else (let (appended, w4) = append_file e dhcpcd_conf dhcpcd_block w3
                             in (Inr appended, w4))))"
    have "configure_dhcpcd e u = rest created u2"
      using Inr h c assms(1) by (simp add: configure_dhcpcd_def and_then_def rest_def)
    moreover have "prefix (trace u2) (trace (snd (rest created u2)))"
      unfolding rest_def by (rule configure_dhcpcd_rest_extends)
    ultimately have "prefix (trace u2) (trace (snd (configure_dhcpcd e u)))"
      by simp
    with upto show ?thesis
      by (rule prefix_order.trans)
  qed
qed

text \<open>
  C3, as the code has it. When the exclusion file does not exist, the
  network-management service is checked before the file is created; when it is
  reported active the operator is asked whether it may be disabled, and on every run
  where the answer is not yes the process ends with status 1 and the files are as they
  were when the exclusion stage began: neither configuration file has been written.
  When the exclusion file exists, the stage runs the backup copy and at most one write
  of the file, and nothing else: the service is not checked, no question is put, no
  answer is read, and the stage does not end the run.
\<close>

theorem refusal_stops_before_any_write:
  assumes "geteuid e = 0"
    and "get_user_input e w0 = (Inr config, w1)"
    and "install_packages e w1 = (Inr (), w)"
    and "\<not> path_exists w dhcpcd_conf"
    and "fst (shell e (ticks w) IsActiveNetworkManager) = 0"
    and "inputs w = answer # rest" and "\<not> says_yes answer"
  shows "fst (script e w0) = 1
       \<and> files (snd (script e w0)) = files w
       \<and> trace (snd (script e w0))
           = trace w @ [Ran IsActiveNetworkManager, Asked AskDisableNetworkManager (Some answer)]
       \<and> (\<not> path_exists u dhcpcd_conf \<and> fst (shell e (ticks u) IsActiveNetworkManager) = 0
            \<and> inputs u = reply # others
          \<longrightarrow> prefix (trace u @ [Ran IsActiveNetworkManager,
                                   Asked AskDisableNetworkManager (Some reply)])
                (trace (snd (configure_dhcpcd e u))))
       \<and> (files v dhcpcd_conf = Some content
          \<longrightarrow> fst (configure_dhcpcd e v)
                = Inr (can_read e dhcpcd_conf
                       \<and> (already_configured content \<or> can_write e dhcpcd_conf))
              \<and> inputs (snd (configure_dhcpcd e v)) = inputs v
              \<and> trace (snd (configure_dhcpcd e v))
                  = trace v
                      @ [Ran (Cp dhcpcd_conf (dhcpcd_conf @ ''.backup.'' @ strftime e (ticks v)))]
                      @ (if can_read e dhcpcd_conf \<and> \<not> already_configured content
                            \<and> can_write e dhcpcd_conf
                         then [Wrote dhcpcd_conf] else []))"
proof -
  have "main e w0 = (Inl (SystemExit 1), snd (configure_dhcpcd e w))"
    using assms(1,2,3) configure_dhcpcd_refused(1) [OF assms(4,5,6,7)]
    by (cases "configure_dhcpcd e w")
       (simp add: main_def check_root_def and_then_def)
  with configure_dhcpcd_refused(2,3) [OF assms(4,5,6,7)]
  have refused: "fst (script e w0) = 1
       \<and> files (snd (script e w0)) = files w
       \<and> trace (snd (script e w0))
           = trace w @ [Ran IsActiveNetworkManager, Asked AskDisableNetworkManager (Some answer)]"
    by (simp add: script_def)
  from refused configure_dhcpcd_asks [of u e reply others]
    configure_dhcpcd_present [of v content e]
  show ?thesis
    by blast
qed

text \<open>
  On the host with an active service: without an exclusion file, an operator who says
  no and one who says yes; with an exclusion file, an operator who would say no.
\<close>

theorem refusal_stops_before_any_write_witness:
  "fst (script obliging_host (fresh_world [] refusing_answers)) = 1
   \<and> files (snd (script obliging_host (fresh_world [] refusing_answers))) dhcpcd_conf = None
   \<and> files (snd (script obliging_host (fresh_world [] refusing_answers))) interfaces_file = None
   \<and> answers_to AskDisableNetworkManager
        (trace (snd (script obliging_host (fresh_world [] refusing_answers)))) = [Some ''no'']
   \<and> prefix [Ran IsActiveNetworkManager, Asked AskDisableNetworkManager (Some ''yes'')]
        (trace (snd (configure_dhcpcd obliging_host (fresh_world [] [''yes'']))))
   \<and> fst (configure_dhcpcd obliging_host
            (fresh_world [(dhcpcd_conf, ''# other'')] [''no''])) = Inr True
   \<and> inputs (snd (configure_dhcpcd obliging_host
                     (fresh_world [(dhcpcd_conf, ''# other'')] [''no'']))) = [''no'']
   \<and> trace (snd (configure_dhcpcd obliging_host
                    (fresh_world [(dhcpcd_conf, ''# other'')] [''no''])))
       = [Ran (Cp dhcpcd_conf ''/etc/dhcpcd.conf.backup.20251101_120000''), Wrote dhcpcd_conf]"
proof -
  let ?start = "fresh_world [] refusing_answers"
  let ?asked = "snd (get_user_input obliging_host ?start)"
  let ?ready = "snd (install_packages obliging_host ?asked)"
  have root: "geteuid obliging_host = 0"
    by (simp add: obliging_host_def)
  have "\<not> isl (fst (get_user_input obliging_host ?start))"
    by code_simp
  then have configured: "get_user_input obliging_host ?start
      = (Inr (projr (fst (get_user_input obliging_host ?start))), ?asked)"
    by (rule returned_parts)
  have "\<not> isl (fst (install_packages obliging_host ?asked))"
    by code_simp
  then have installed: "install_packages obliging_host ?asked = (Inr (), ?ready)"
    by (rule returned_unit)
  have missing: "\<not> path_exists ?ready dhcpcd_conf"
    by code_simp
  have active: "fst (shell obliging_host (ticks ?ready) IsActiveNetworkManager) = 0"
    by (simp add: obliging_host_def)
  have next_answer: "inputs ?ready = ''no'' # []"
    by code_simp
  have refuses: "\<not> says_yes ''no''"
    by code_simp
  have before: "files ?ready dhcpcd_conf = None" "files ?ready interfaces_file = None"
    "answers_to AskDisableNetworkManager (trace ?ready) = []"
    by code_simp+
  have absent: "\<not> path_exists (fresh_world [] [''yes'']) dhcpcd_conf"
    and reported: "fst (shell obliging_host (ticks (fresh_world [] [''yes''])) IsActiveNetworkManager) = 0"
    and reply: "inputs (fresh_world [] [''yes'']) = ''yes'' # []"
    and held: "files (fresh_world [(dhcpcd_conf, ''# other'')] [''no'']) dhcpcd_conf = Some ''# other''"
    and plain: "\<not> already_configured ''# other''"
    and opened: "can_read obliging_host dhcpcd_conf" "can_write obliging_host dhcpcd_conf"
    and stamped: "strftime obliging_host (ticks (fresh_world [(dhcpcd_conf, ''# other'')] [''no'']))
                    = ''20251101_120000''"
    by (simp_all add: fresh_world_def path_exists_def obliging_host_def already_configured_def
          sublist_code)
  from refusal_stops_before_any_write
         [OF root configured installed missing active next_answer refuses,
          of "fresh_world [] [''yes'']" "''yes''" "[]"
             "fresh_world [(dhcpcd_conf, ''# other'')] [''no'']" "''# other''"]
    before absent reported reply held plain opened stamped
  show ?thesis
    by (simp add: answers_to_append fresh_world_def dhcpcd_conf_def)
qed

text \<open>
  On the same host with an exclusion file in place the service is as active, the
  question is never put (the answer \<open>no\<close> is still unread at the end), and both files
  are written.
\<close>

theorem existing_file_skips_the_question_counterexample:
  "fst (detect_network_manager obliging_host
          (fresh_world [(dhcpcd_conf, ''# mine'')] refusing_answers)) = True
   \<and> fst (script obliging_host (fresh_world [(dhcpcd_conf, ''# mine'')] refusing_answers)) = 0
   \<and> answers_to AskDisableNetworkManager
        (trace (snd (script obliging_host
                       (fresh_world [(dhcpcd_conf, ''# mine'')] refusing_answers)))) = []
   \<and> inputs (snd (script obliging_host
                     (fresh_world [(dhcpcd_conf, ''# mine'')] refusing_answers))) = [''no'']
   \<and> files (snd (script obliging_host
                    (fresh_world [(dhcpcd_conf, ''# mine'')] refusing_answers))) dhcpcd_conf
       = Some (''# mine'' @ dhcpcd_block)
   \<and> files (snd (script obliging_host
                    (fresh_world [(dhcpcd_conf, ''# mine'')] refusing_answers))) interfaces_file
       \<noteq> None
   \<and> fst (detect_network_manager obliging_host
          (snd (script obliging_host
                  (fresh_world [(dhcpcd_conf, ''# mine'')] refusing_answers)))) = True"
  by code_simp

section \<open>The boot action is inserted at most once\<close>

lemma occurrences_short: "length t < length p \<Longrightarrow> occurrences p t = 0"
  by (induction t) (auto dest: prefix_length_le)

lemma occurrences_self: "p \<noteq> [] \<Longrightarrow> occurrences p p = 1"
  by (cases p) (auto simp: occurrences_short)

lemma occurrences_absent: "\<not> sublist p t \<Longrightarrow> occurrences p t = 0"
  using occurrences_pos_iff [of p t] by simp

lemma cron_command_plain:
  "cron_command zt \<noteq> []"
  "NL \<notin> set zt \<Longrightarrow> NL \<notin> set (cron_command zt)"
  by (simp_all add: cron_command_def)

lemma plain_text_parts:
  "plain_text (a @ b) \<Longrightarrow> plain_text a"
  "plain_text (a @ b) \<Longrightarrow> plain_text b"
  by (simp_all add: plain_text_def)

lemma create_cron_job_present:
  assumes "crontab w = Some table" and "plain_text table"
    and "sublist (cron_command zt) table" and "zt \<noteq> []"
  shows "fst (create_cron_job e (Some zt) w) = True"
    and "crontab (snd (create_cron_job e (Some zt) w)) = Some table"
  using assms
  by (simp_all add: create_cron_job_def truthy_def run_command_def outcome_def effect_def
        Let_def)

lemma create_cron_job_absent:
  assumes "table = (case crontab w of None \<Rightarrow> [] | Some t \<Rightarrow> t)"
    and "\<not> sublist (cron_command zt) table" and "zt \<noteq> []"
    and "plain_text (table @ [NL] @ cron_command zt @ [NL])"
    and "fst (shell e (Suc (ticks w)) (CrontabInstall (table @ [NL] @ cron_command zt @ [NL]))) = 0"
  shows "fst (create_cron_job e (Some zt) w) = True"
    and "crontab (snd (create_cron_job e (Some zt) w))
           = Some (table @ [NL] @ cron_command zt @ [NL, NL])"
  using assms plain_text_parts(1) [OF assms(4)]
  by (auto simp add: create_cron_job_def truthy_def run_command_def outcome_def effect_def
        Let_def split: option.splits prod.splits)

text \<open>
  C8, as the code has it: take a job table that, with the boot action appended, is
  plain text (printable ASCII with tabs and newlines, no single quote and no
  backslash, within the length of one command argument), an interface name without
  newline, and a job-table editor that succeeds. Then the table is left as it is when
  the command line is already in it (however often), and otherwise the command line
  is appended once and then occurs exactly once; a second insertion in succession
  leaves the table as the first one left it.
\<close>

theorem boot_action_idempotent:
  assumes "zt \<noteq> []" and "NL \<notin> set zt"
    and "table = (case crontab w of None \<Rightarrow> [] | Some t \<Rightarrow> t)"
    and "plain_text (table @ [NL] @ cron_command zt @ [NL, NL])"
    and "\<And>n text. fst (shell e n (CrontabInstall text)) = 0"
  shows "crontab (snd (create_cron_job e (Some zt) w))
           = (if sublist (cron_command zt) table then crontab w
              else Some (table @ [NL] @ cron_command zt @ [NL, NL]))
       \<and> occurrences (cron_command zt) (the (crontab (snd (create_cron_job e (Some zt) w))))
           = (if sublist (cron_command zt) table then occurrences (cron_command zt) table else 1)
       \<and> crontab (snd (create_cron_job e (Some zt) (snd (create_cron_job e (Some zt) w))))
           = crontab (snd (create_cron_job e (Some zt) w))"
proof (cases "sublist (cron_command zt) table")
  case True
  have plain: "plain_text table"
    using assms(4) by (rule plain_text_parts(1))
  from True assms(3) cron_command_plain(1) [of zt] have held: "crontab w = Some table"
    by (cases "crontab w") auto
  have first: "crontab (snd (create_cron_job e (Some zt) w)) = Some table"
    using held plain True assms(1) by (rule create_cron_job_present(2))
  have "crontab (snd (create_cron_job e (Some zt) (snd (create_cron_job e (Some zt) w))))
          = Some table"
    using first plain True assms(1) by (rule create_cron_job_present(2))
  with first held True show ?thesis by simp
next
  case False
  let ?after = "table @ [NL] @ cron_command zt @ [NL, NL]"
  have "plain_text ((table @ [NL] @ cron_command zt @ [NL]) @ [NL])"
    using assms(4) by simp
  then have sent: "plain_text (table @ [NL] @ cron_command zt @ [NL])"
    by (rule plain_text_parts(1))
  have first: "crontab (snd (create_cron_job e (Some zt) w)) = Some ?after"
    using assms(3) False assms(1) sent assms(5)
    by (rule create_cron_job_absent(2))
  have inside: "sublist (cron_command zt) ?after"
    by (metis append_assoc sublist_appendI)
  have second: "crontab (snd (create_cron_job e (Some zt) (snd (create_cron_job e (Some zt) w))))
          = Some ?after"
    using first assms(4) inside assms(1) by (rule create_cron_job_present(2))
  have "occurrences (cron_command zt) ?after
          = occurrences (cron_command zt) table + occurrences (cron_command zt) (cron_command zt @ [NL, NL])"
    using occurrences_apart [of NL "cron_command zt" table "cron_command zt @ [NL, NL]"]
      cron_command_plain [of zt] assms(2) by simp
  also have "occurrences (cron_command zt) (cron_command zt @ [NL, NL])
          = occurrences (cron_command zt) (cron_command zt) + occurrences (cron_command zt) [NL]"
    using occurrences_apart [of NL "cron_command zt" "cron_command zt" "[NL]"]
      cron_command_plain [of zt] assms(2) by simp
  also have "occurrences (cron_command zt) [NL] = 0"
    using cron_command_plain [of zt] assms(2) by (cases "cron_command zt") auto
  finally have "occurrences (cron_command zt) ?after = 1"
    using occurrences_absent [OF False] occurrences_self [OF cron_command_plain(1), of zt]
    by simp
  with first second False show ?thesis by simp
qed

text \<open>Starting without a job table, on the host where every command succeeds.\<close>

theorem boot_action_idempotent_witness:
  "crontab (snd (create_cron_job obliging_host (Some ''zt0'') (fresh_world [] [])))
     = Some ([NL] @ cron_command ''zt0'' @ [NL, NL])
   \<and> occurrences (cron_command ''zt0'')
        (the (crontab (snd (create_cron_job obliging_host (Some ''zt0'') (fresh_world [] []))))) = 1
   \<and> crontab (snd (create_cron_job obliging_host (Some ''zt0'')
                     (snd (create_cron_job obliging_host (Some ''zt0'') (fresh_world [] [])))))
       = Some ([NL] @ cron_command ''zt0'' @ [NL, NL])"
proof -
  have plain: "plain_text ([] @ [NL] @ cron_command ''zt0'' @ [NL, NL])"
    by (simp add: plain_text_def plain_char_def cron_command_def)
  have named: "''zt0'' \<noteq> []" "NL \<notin> set ''zt0''"
    by simp_all
  have none: "[] = (case crontab (fresh_world [] []) of None \<Rightarrow> [] | Some t \<Rightarrow> t)"
    by (simp add: fresh_world_def)
  have absent: "\<not> sublist (cron_command ''zt0'') []"
    by (simp add: cron_command_def)
  have ok: "\<And>n text. fst (shell obliging_host n (CrontabInstall text)) = 0"
    by (simp add: obliging_host_def)
  from boot_action_idempotent [OF named none plain ok] absent show ?thesis
    by (auto simp del: occurrences.simps)
qed

text \<open>A table that holds the command line twice holds it twice after two insertions.\<close>

theorem boot_action_twice_counterexample:
  "occurrences (cron_command ''zt0'')
     (the (crontab (snd (create_cron_job obliging_host (Some ''zt0'')
                           (snd (create_cron_job obliging_host (Some ''zt0'') doubled_table))))))
     = 2"
  by (simp add: create_cron_job_def truthy_def run_command_def outcome_def effect_def
        doubled_table_def fresh_world_def obliging_host_def plain_text_def plain_char_def
        cron_command_def sublist_code Let_def)

end
